theory Spec2Isabelle
  imports Complex_Main "HOL-Library.Word" "HOL-Library.Log_Nat"
begin

section \<open>Video upload handler of the file-storage service\<close>

text \<open>
  A shallow embedding of \<^verbatim>\<open>handler_upload_video.go\<close>. Go strings are byte
  sequences and are modelled as \<^typ>\<open>string\<close>; Go's \<^verbatim>\<open>int\<close> is the 64-bit
  signed integer of the usual build targets and is modelled as a \<^typ>\<open>64 word\<close> read
  through \<^const>\<open>sint\<close>; a Go \<^verbatim>\<open>error\<close> is a value carrying its message.
\<close>

datatype error = Error string

subsection \<open>Media types\<close>

definition mediaTypeToVideoExtension :: "string \<Rightarrow> string" where
  "mediaTypeToVideoExtension mediaType =
     (if mediaType = ''video/mp4'' then ''mp4''
      else if mediaType = ''video/quicktime'' then ''mov''
      else [])"

subsection \<open>IEEE 754 binary64 arithmetic\<close>

text \<open>
  The aspect-ratio test is computed in \<^verbatim>\<open>float64\<close>. A finite float is represented
  by the rational number it denotes; every operation computes the exact result and rounds
  it to the nearest binary64 number, ties to even (53 significant bits, least exponent
  \<open>-1022\<close>, overflow at \<open>2 ^ 1024\<close>). Zero carries no sign: the operations used by the
  program (subtraction, absolute value, comparison) do not distinguish \<open>+0\<close> from
  \<open>-0\<close>, and the only divisor that can be zero is the conversion of the integer \<open>0\<close>,
  which is \<open>+0\<close>.
\<close>

datatype float64 = Finite rat | PosInf | NegInf | NaN

definition round_half_even :: "rat \<Rightarrow> int" where
  "round_half_even x =
     (let n = \<lfloor>x\<rfloor>; d = x - of_int n
      in if d < 1 / 2 then n
         else if 1 / 2 < d then n + 1
         else if even n then n else n + 1)"

text \<open>
  The binary exponent of a positive rational: the \<open>e\<close> with
  \<open>2 ^ e \<le> x < 2 ^ (e + 1)\<close>, read off the bit length of the integer part of \<open>x\<close>
  (or of \<open>1 / x\<close> when \<open>x < 1\<close>).
\<close>

definition ilog2 :: "rat \<Rightarrow> int" where
  "ilog2 x = (if 1 \<le> x then bitlen \<lfloor>x\<rfloor> - 1 else - bitlen (\<lceil>1 / x\<rceil> - 1))"

definition round64 :: "rat \<Rightarrow> float64" where
  "round64 x =
     (if x = 0 then Finite 0
      else let e = max (ilog2 \<bar>x\<bar>) (- 1022);
               u = 2 powi (e - 52);
               y = of_int (round_half_even (x / u)) * u
           in if 2 ^ 1024 \<le> \<bar>y\<bar> then (if 0 < x then PosInf else NegInf)
              else Finite y)"

text \<open>The conversion \<^verbatim>\<open>float64(n)\<close> of a Go \<^verbatim>\<open>int\<close>.\<close>

definition float64_of_int :: "64 word \<Rightarrow> float64" where
  "float64_of_int n = round64 (of_int (sint n))"

fun f64_div :: "float64 \<Rightarrow> float64 \<Rightarrow> float64" where
  "f64_div NaN _ = NaN"
| "f64_div _ NaN = NaN"
| "f64_div (Finite a) (Finite b) =
     (if b = 0 then (if a = 0 then NaN else if 0 < a then PosInf else NegInf)
      else round64 (a / b))"
| "f64_div (Finite a) _ = Finite 0"
| "f64_div PosInf (Finite b) = (if 0 \<le> b then PosInf else NegInf)"
| "f64_div NegInf (Finite b) = (if 0 \<le> b then NegInf else PosInf)"
| "f64_div _ _ = NaN"

fun f64_sub :: "float64 \<Rightarrow> float64 \<Rightarrow> float64" where
  "f64_sub NaN _ = NaN"
| "f64_sub _ NaN = NaN"
| "f64_sub (Finite a) (Finite b) = round64 (a - b)"
| "f64_sub (Finite a) PosInf = NegInf"
| "f64_sub (Finite a) NegInf = PosInf"
| "f64_sub PosInf PosInf = NaN"
| "f64_sub PosInf _ = PosInf"
| "f64_sub NegInf NegInf = NaN"
| "f64_sub NegInf _ = NegInf"

fun f64_abs :: "float64 \<Rightarrow> float64" where
  "f64_abs (Finite a) = Finite \<bar>a\<bar>"
| "f64_abs PosInf = PosInf"
| "f64_abs NegInf = PosInf"
| "f64_abs NaN = NaN"

fun f64_le :: "float64 \<Rightarrow> float64 \<Rightarrow> bool" where
  "f64_le NaN _ = False"
| "f64_le _ NaN = False"
| "f64_le (Finite a) (Finite b) = (a \<le> b)"
| "f64_le NegInf _ = True"
| "f64_le _ PosInf = True"
| "f64_le _ _ = False"

text \<open>
  \<^verbatim>\<open>const float64EqualityThreshold = 1e-3\<close>, and the constant expressions
  \<^verbatim>\<open>16.0/9.0\<close> and \<^verbatim>\<open>9.0/16.0\<close>: Go evaluates an untyped constant exactly and
  rounds it once, where it is used as a \<^verbatim>\<open>float64\<close>.
\<close>

definition float64EqualityThreshold :: float64 where
  "float64EqualityThreshold = round64 (1 / 1000)"

definition ratio_16_9 :: float64 where
  "ratio_16_9 = round64 (16 / 9)"

definition ratio_9_16 :: float64 where
  "ratio_9_16 = round64 (9 / 16)"

definition almostEqual :: "float64 \<Rightarrow> float64 \<Rightarrow> bool" where
  "almostEqual a b = f64_le (f64_abs (f64_sub a b)) float64EqualityThreshold"

subsection \<open>Inspecting the probe report\<close>

record stream =
  Width :: "64 word"
  Height :: "64 word"
  DisplayAspectRatio :: string

record ffprobeOutput =
  Streams :: "stream list"

text \<open>
  \<^verbatim>\<open>getVideoAspectRatio\<close> runs \<^verbatim>\<open>ffprobe\<close> on the file and decodes the JSON it
  prints; either step can fail, and both failures return the error unchanged. The two
  steps are the parameter \<open>probe\<close>: the decoded report of a file, or the error. The
  \<^verbatim>\<open>range\<close> loop returns at the first stream whose \<^verbatim>\<open>DisplayAspectRatio\<close> is
  not empty, which is \<^const>\<open>find\<close>; \<^verbatim>\<open>Streams[0]\<close> is read only after the list
  was checked to be non-empty.
\<close>

definition getVideoAspectRatio :: "(string \<Rightarrow> error + ffprobeOutput) \<Rightarrow> string \<Rightarrow> error + string" where
  "getVideoAspectRatio probe filePath =
     (case probe filePath of
        Inl err \<Rightarrow> Inl err
      | Inr outData \<Rightarrow>
          (case Streams outData of
             [] \<Rightarrow> Inl (Error ''no streams found'')
           | s0 # _ \<Rightarrow>
               (case find (\<lambda>s. DisplayAspectRatio s \<noteq> []) (Streams outData) of
                  Some s \<Rightarrow> Inr (DisplayAspectRatio s)
                | None \<Rightarrow>
                    (let width = Width s0;
                         height = Height s0;
                         aspectRatio = f64_div (float64_of_int width) (float64_of_int height)
                     in if almostEqual aspectRatio ratio_16_9 then Inr ''16:9''
                        else if almostEqual aspectRatio ratio_9_16 then Inr ''9:16''
                        else Inr ''other''))))"

text \<open>
  The \<^verbatim>\<open>switch\<close> of \<^verbatim>\<open>handlerUploadVideo\<close> that turns the aspect ratio into the
  prefix of the object key (the variable \<^verbatim>\<open>videoPrefix\<close>).
\<close>

definition videoPrefix :: "string \<Rightarrow> string" where
  "videoPrefix aspectRatio =
     (if aspectRatio = ''16:9'' then ''landscape''
      else if aspectRatio = ''9:16'' then ''portrait''
      else ''other'')"

subsection \<open>Object keys\<close>

type_synonym byte = "8 word"

text \<open>
  \<^verbatim>\<open>base64.RawURLEncoding\<close> of Go's standard library: the URL-safe alphabet of
  RFC 4648 and no padding. \<^verbatim>\<open>Encode\<close> packs three source bytes into a 24-bit
  value and emits its four 6-bit groups; a remainder of two bytes gives three characters
  and a remainder of one byte gives two.
\<close>

definition encodeURL :: string where
  "encodeURL = ''ABCDEFGHIJKLMNOPQRSTUVWXYZabcdefghijklmnopqrstuvwxyz0123456789-_''"

definition encode_char :: "nat \<Rightarrow> char" where
  "encode_char val = encodeURL ! (val mod 64)"

fun RawURLEncoding_Encode :: "byte list \<Rightarrow> string" where
  "RawURLEncoding_Encode (a # b # c # src) =
     (let val = unat a * 65536 + unat b * 256 + unat c
      in encode_char (val div 262144) # encode_char (val div 4096) #
         encode_char (val div 64) # encode_char val # RawURLEncoding_Encode src)"
| "RawURLEncoding_Encode [a, b] =
     (let val = unat a * 65536 + unat b * 256
      in [encode_char (val div 262144), encode_char (val div 4096), encode_char (val div 64)])"
| "RawURLEncoding_Encode [a] =
     (let val = unat a * 65536
      in [encode_char (val div 262144), encode_char (val div 4096)])"
| "RawURLEncoding_Encode [] = []"

definition RawURLEncoding_EncodedLen :: "nat \<Rightarrow> nat" where
  "RawURLEncoding_EncodedLen n = n div 3 * 4 + (n mod 3 * 8 + 5) div 6"

text \<open>
  \<^verbatim>\<open>fmt.Sprintf("%s/%s.%s", videoPrefix, s3VideoID, mediaTypeToVideoExtension(mediaType))\<close>
  with \<^verbatim>\<open>s3VideoID\<close> the encoding of \<^verbatim>\<open>rawVideoID\<close>.
\<close>

definition s3VideoKey :: "string \<Rightarrow> byte list \<Rightarrow> string \<Rightarrow> string" where
  "s3VideoKey prefix rawVideoID mediaType =
     prefix @ ''/'' @ RawURLEncoding_Encode rawVideoID @ ''.'' @ mediaTypeToVideoExtension mediaType"

text \<open>
  \<^verbatim>\<open>strings.Split(s, sep)\<close> for a separator of one byte, as the handler calls it:
  every occurrence of the separator ends a component, and a string without the separator
  is its own single component.
\<close>

fun strings_Split :: "string \<Rightarrow> char \<Rightarrow> string list" where
  "strings_Split [] sep = [[]]"
| "strings_Split (c # cs) sep =
     (if c = sep then [] # strings_Split cs sep
      else (case strings_Split cs sep of
              [] \<Rightarrow> [[c]]
            | x # xs \<Rightarrow> (c # x) # xs))"

subsection \<open>Records, requests and responses\<close>

type_synonym uuid = "128 word"

text \<open>
  Modelled from the spec: \<^verbatim>\<open>database.Video\<close> is declared in the package
  \<^verbatim>\<open>internal/database\<close>; the record has an identifier, the identifier of the owning
  user, an optional stored-object reference and an optional thumbnail reference.
\<close>

record Video =
  ID :: uuid
  UserID :: uuid
  VideoURL :: "string option"
  ThumbnailURL :: "string option"

text \<open>
  Modelled from the spec: \<^verbatim>\<open>respondWithError\<close> and \<^verbatim>\<open>respondWithJSON\<close> are
  declared in another file of the package; a response is a status code and either a
  message or the serialised record.
\<close>

datatype body = ErrorBody string | VideoBody Video

record response =
  status :: nat
  payload :: body

definition respondWithError :: "nat \<Rightarrow> string \<Rightarrow> response" where
  "respondWithError code msg = \<lparr>status = code, payload = ErrorBody msg\<rparr>"

definition respondWithJSON :: "nat \<Rightarrow> Video \<Rightarrow> response" where
  "respondWithJSON code video = \<lparr>status = code, payload = VideoBody video\<rparr>"

record formFile =
  ContentType :: string
  content :: "byte list"

text \<open>
  The request as the handler reads it: the path value \<^verbatim>\<open>videoID\<close>, the headers, and
  the multipart form, which either fails to parse or maps field names to files.
\<close>

record request =
  PathValue_videoID :: string
  Header :: "(string \<times> string) list"
  MultipartForm :: "error + (string \<Rightarrow> formFile option)"

record apiConfig =
  jwtSecret :: string
  s3Bucket :: string

subsection \<open>Collaborators and effects\<close>

text \<open>
  The outcome of running \<^verbatim>\<open>ffmpeg\<close>: exit status zero with the output file written,
  or a failure, after which the output file may or may not have been left on disk.
\<close>

datatype exit = Exited0 | ExitedNonZero error bool

text \<open>
  What the handler calls and does not define is a parameter: the UUID parser, the
  \<^verbatim>\<open>auth\<close> package, \<^verbatim>\<open>mime.ParseMediaType\<close>, the operating system, the two
  external tools, the random source, the S3 client and the write to the record store.
  Each field gives the answer of the call for its arguments. \<open>exec_ffprobe\<close> stands for
  running \<^verbatim>\<open>ffprobe\<close> and decoding its report; \<open>rand_Read\<close> gives the byte written
  at each index of the buffer.
\<close>

record env =
  uuid_Parse :: "string \<Rightarrow> error + uuid"
  auth_GetBearerToken :: "(string \<times> string) list \<Rightarrow> error + string"
  auth_ValidateJWT :: "string \<Rightarrow> string \<Rightarrow> error + uuid"
  mime_ParseMediaType :: "string \<Rightarrow> error + string"
  os_CreateTemp :: "string \<Rightarrow> error + string"
  io_Copy :: "string \<Rightarrow> error option"
  exec_ffprobe :: "string \<Rightarrow> error + ffprobeOutput"
  exec_ffmpeg :: "string \<Rightarrow> string \<Rightarrow> exit"
  os_Open :: "string \<Rightarrow> error option"
  rand_Read :: "error + (nat \<Rightarrow> byte)"
  s3_PutObject :: "string \<Rightarrow> string \<Rightarrow> string \<Rightarrow> error option"
  db_UpdateVideo :: "Video \<Rightarrow> error option"
  s3_PresignGetObject :: "string \<Rightarrow> string \<Rightarrow> int \<Rightarrow> error + string"

text \<open>
  The calls of one request that read the request body, touch the local file system, the
  object store or write the record store, in the order they are made, with their
  arguments.
\<close>

datatype call =
    ParseMultipartForm
  | CloseFormFile
  | CreateTemp string
  | Copy string
  | Ffprobe string
  | Ffmpeg string string
  | Open string
  | Close string
  | Remove string
  | PutObject string string string
  | UpdateVideo Video
  | PresignGetObject string string int

text \<open>
  Modelled from the spec: \<^verbatim>\<open>GetVideo\<close> and \<^verbatim>\<open>UpdateVideo\<close> are declared in
  the package \<^verbatim>\<open>internal/database\<close>; they read and overwrite the record stored under
  an identifier, and the lookup fails when there is none. The record store is the field
  \<open>videos\<close> of the state outside the handler, beside the paths present on the local
  file system and the objects in the store (bucket and key). \<^verbatim>\<open>os.Remove\<close> deletes
  a path; its error is ignored by the handler.
\<close>

record world =
  files :: "string set"
  objects :: "(string \<times> string) set"
  videos :: "uuid \<Rightarrow> Video option"

definition os_Remove :: "string \<Rightarrow> world \<Rightarrow> world" where
  "os_Remove name w = w\<lparr>files := files w - {name}\<rparr>"

definition Minute :: int where
  "Minute = 60 * 1000000000"

subsection \<open>Signing\<close>

definition generatePresignedURL :: "env \<Rightarrow> string \<Rightarrow> string \<Rightarrow> int \<Rightarrow> (string \<times> error option) \<times> call list" where
  "generatePresignedURL e bucket key expireTime =
     (case s3_PresignGetObject e bucket key expireTime of
        Inl err \<Rightarrow> (([], Some err), [PresignGetObject bucket key expireTime])
      | Inr url \<Rightarrow> ((url, None), [PresignGetObject bucket key expireTime]))"

definition dbVideoToSignedVideo :: "env \<Rightarrow> Video \<Rightarrow> (Video \<times> error option) \<times> call list" where
  "dbVideoToSignedVideo e video =
     (case VideoURL video of
        None \<Rightarrow> ((video, None), [])
      | Some url \<Rightarrow>
          (let components = strings_Split url (CHR '','')
           in if length components < 2 then ((video, None), [])
              else (let bucket = components ! 0;
                        key = components ! 1
                    in (case generatePresignedURL e bucket key (15 * Minute) of
                          ((signedURL, Some err), calls) \<Rightarrow> ((video, Some err), calls)
                        | ((signedURL, None), calls) \<Rightarrow>
                            ((video\<lparr>VideoURL := Some signedURL\<rparr>, None), calls)))))"

subsection \<open>The upload handler\<close>

definition processVideoForFastStart :: "env \<Rightarrow> string \<Rightarrow> world \<Rightarrow> (string \<times> error option) \<times> world \<times> call list" where
  "processVideoForFastStart e filePath w =
     (let outputFilePath = filePath @ ''.processing''
      in (case exec_ffmpeg e filePath outputFilePath of
            ExitedNonZero err leftover \<Rightarrow>
              (([], Some err),
               (if leftover then w\<lparr>files := insert outputFilePath (files w)\<rparr> else w),
               [Ffmpeg filePath outputFilePath])
          | Exited0 \<Rightarrow>
              ((outputFilePath, None),
               w\<lparr>files := insert outputFilePath (files w)\<rparr>,
               [Ffmpeg filePath outputFilePath])))"

text \<open>
  A deferred call runs when the handler returns, after the response was written, and the
  deferred calls run last registered first. The handler is therefore cut where it
  registers them: each part below is the code after one \<^verbatim>\<open>defer\<close>, and its caller
  runs the deferred call on whatever that part returns.

  The handler from \<^verbatim>\<open>rand.Read\<close> to the response, after
  \<^verbatim>\<open>defer processedFile.Close()\<close>.
\<close>

definition handlerUploadVideo_upload ::
  "apiConfig \<Rightarrow> env \<Rightarrow> Video \<Rightarrow> string \<Rightarrow> string \<Rightarrow> world \<Rightarrow> response \<times> world \<times> call list" where
  "handlerUploadVideo_upload cfg e dbVideo mediaType prefix w =
     (case rand_Read e of
        Inl err \<Rightarrow> (respondWithError 500 ''Error generating thumbnail ID'', w, [])
      | Inr random \<Rightarrow>
          (let rawVideoID = map random [0..<32];
               key = s3VideoKey prefix rawVideoID mediaType
           in (case s3_PutObject e (s3Bucket cfg) key mediaType of
                 Some err \<Rightarrow>
                   (respondWithError 500 ''Error uploading video to S3'', w,
                    [PutObject (s3Bucket cfg) key mediaType])
               | None \<Rightarrow>
                   (let w1 = w\<lparr>objects := insert (s3Bucket cfg, key) (objects w)\<rparr>;
                        videoURL = s3Bucket cfg @ '','' @ key;
                        dbVideo1 = dbVideo\<lparr>VideoURL := Some videoURL\<rparr>
                    in (case db_UpdateVideo e dbVideo1 of
                          Some err \<Rightarrow>
                            (respondWithError 500 ''Error updating video'', w1,
                             [PutObject (s3Bucket cfg) key mediaType, UpdateVideo dbVideo1])
                        | None \<Rightarrow>
                            (let w2 = w1\<lparr>videos := (videos w1)(ID dbVideo1 \<mapsto> dbVideo1)\<rparr>
                             in (case dbVideoToSignedVideo e dbVideo1 of
                                   ((signedVideo, Some err), calls) \<Rightarrow>
                                     (respondWithError 500 ''Error signing video URL'', w2,
                                      PutObject (s3Bucket cfg) key mediaType # UpdateVideo dbVideo1 # calls)
                                 | ((signedVideo, None), calls) \<Rightarrow>
                                     (respondWithJSON 200 signedVideo, w2,
                                      PutObject (s3Bucket cfg) key mediaType # UpdateVideo dbVideo1 # calls))))))))"

text \<open>From \<^verbatim>\<open>os.Open\<close>, after \<^verbatim>\<open>defer os.Remove(processedFilePath)\<close>.\<close>

definition handlerUploadVideo_processed ::
  "apiConfig \<Rightarrow> env \<Rightarrow> Video \<Rightarrow> string \<Rightarrow> string \<Rightarrow> string \<Rightarrow> world \<Rightarrow> response \<times> world \<times> call list" where
  "handlerUploadVideo_processed cfg e dbVideo mediaType prefix processedFilePath w =
     (case os_Open e processedFilePath of
        Some err \<Rightarrow>
          (respondWithError 500 ''Error opening processed file'', w, [Open processedFilePath])
      | None \<Rightarrow>
          (case handlerUploadVideo_upload cfg e dbVideo mediaType prefix w of
             (resp, w1, calls) \<Rightarrow>
               (resp, w1, Open processedFilePath # calls @ [Close processedFilePath])))"

text \<open>
  From \<^verbatim>\<open>io.Copy\<close>, after \<^verbatim>\<open>defer os.Remove(tempFile.Name())\<close> and
  \<^verbatim>\<open>defer tempFile.Close()\<close>.
\<close>

definition handlerUploadVideo_staged ::
  "apiConfig \<Rightarrow> env \<Rightarrow> Video \<Rightarrow> string \<Rightarrow> string \<Rightarrow> world \<Rightarrow> response \<times> world \<times> call list" where
  "handlerUploadVideo_staged cfg e dbVideo mediaType tempFile w =
     (case io_Copy e tempFile of
        Some err \<Rightarrow>
          (respondWithError 500 ''Error copying file to temp'', w, [Copy tempFile])
      | None \<Rightarrow>
          (case getVideoAspectRatio (exec_ffprobe e) tempFile of
             Inl err \<Rightarrow>
               (respondWithError 500 ''Error getting video aspect ratio'', w,
                [Copy tempFile, Ffprobe tempFile])
           | Inr aspectRatio \<Rightarrow>
               (case processVideoForFastStart e tempFile w of
                  ((processedFilePath, Some err), w1, calls) \<Rightarrow>
                    (respondWithError 500 ''Error processing video for fast start'', w1,
                     Copy tempFile # Ffprobe tempFile # calls)
                | ((processedFilePath, None), w1, calls) \<Rightarrow>
                    (case handlerUploadVideo_processed cfg e dbVideo mediaType
                            (videoPrefix aspectRatio) processedFilePath w1 of
                       (resp, w2, calls2) \<Rightarrow>
                         (resp, os_Remove processedFilePath w2,
                          Copy tempFile # Ffprobe tempFile # calls @ calls2
                            @ [Remove processedFilePath])))))"

text \<open>From \<^verbatim>\<open>mime.ParseMediaType\<close>, after \<^verbatim>\<open>defer formFile.Close()\<close>.\<close>

definition handlerUploadVideo_form ::
  "apiConfig \<Rightarrow> env \<Rightarrow> Video \<Rightarrow> formFile \<Rightarrow> world \<Rightarrow> response \<times> world \<times> call list" where
  "handlerUploadVideo_form cfg e dbVideo file w =
     (case mime_ParseMediaType e (ContentType file) of
        Inl err \<Rightarrow> (respondWithError 400 ''Error parsing media type'', w, [])
      | Inr mediaType \<Rightarrow>
          if mediaType \<noteq> ''video/mp4''
          then (respondWithError 400 ''Invalid media type'', w, [])
          else (let pattern = ''video-upload-*.'' @ mediaTypeToVideoExtension mediaType
                in (case os_CreateTemp e pattern of
                      Inl err \<Rightarrow>
                        (respondWithError 500 ''Error creating temp file'', w, [CreateTemp pattern])
                    | Inr tempFile \<Rightarrow>
                        (case handlerUploadVideo_staged cfg e dbVideo mediaType tempFile
                                (w\<lparr>files := insert tempFile (files w)\<rparr>) of
                           (resp, w1, calls) \<Rightarrow>
                             (resp, os_Remove tempFile w1,
                              CreateTemp pattern # calls @ [Close tempFile, Remove tempFile])))))"

definition handlerUploadVideo ::
  "apiConfig \<Rightarrow> env \<Rightarrow> request \<Rightarrow> world \<Rightarrow> response \<times> world \<times> call list" where
  "handlerUploadVideo cfg e r w =
     (case uuid_Parse e (PathValue_videoID r) of
        Inl err \<Rightarrow> (respondWithError 400 ''Invalid ID'', w, [])
      | Inr videoID \<Rightarrow>
          (case auth_GetBearerToken e (Header r) of
             Inl err \<Rightarrow> (respondWithError 401 ''Couldn't find JWT'', w, [])
           | Inr token \<Rightarrow>
               (case auth_ValidateJWT e token (jwtSecret cfg) of
                  Inl err \<Rightarrow> (respondWithError 401 ''Couldn't validate JWT'', w, [])
                | Inr userID \<Rightarrow>
                    (case videos w videoID of
                       None \<Rightarrow> (respondWithError 404 ''Error getting video'', w, [])
                     | Some dbVideo \<Rightarrow>
                         if UserID dbVideo \<noteq> userID
                         then (respondWithError 401 ''User does not own video'', w, [])
                         else (case MultipartForm r of
                                 Inl err \<Rightarrow>
                                   (respondWithError 400 ''Error parsing form'', w,
                                    [ParseMultipartForm])
                               | Inr form \<Rightarrow>
                                   (case form ''video'' of
                                      None \<Rightarrow>
                                        (respondWithError 400 ''Unable to parse form file'', w,
                                         [ParseMultipartForm])
                                    | Some file \<Rightarrow>
                                        (case handlerUploadVideo_form cfg e dbVideo file w of
                                           (resp, w1, calls) \<Rightarrow>
                                             (resp, w1,
                                              ParseMultipartForm # calls @ [CloseFormFile]))))))))"

subsection \<open>A sample request\<close>

text \<open>
  One request with every collaborator answering: the owner of video \<open>1\<close> uploads an
  MP4 whose probe report declares \<open>16:9\<close>. It is the concrete input at which the
  theorems below are exercised.
\<close>

definition sample_cfg :: apiConfig where
  "sample_cfg = \<lparr>jwtSecret = ''secret'', s3Bucket = ''tubely''\<rparr>"

definition sample_video :: Video where
  "sample_video = \<lparr>ID = 1, UserID = 7, VideoURL = None, ThumbnailURL = None\<rparr>"

definition sample_world :: world where
  "sample_world = \<lparr>files = {}, objects = {}, videos = Map.empty(1 \<mapsto> sample_video)\<rparr>"

definition sample_request :: request where
  "sample_request =
     \<lparr>PathValue_videoID = ''1'',
      Header = [(''Authorization'', ''Bearer token'')],
      MultipartForm = Inr (Map.empty(''video'' \<mapsto> \<lparr>ContentType = ''video/mp4'', content = []\<rparr>))\<rparr>"

definition sample_env :: env where
  "sample_env =
     \<lparr>uuid_Parse = (\<lambda>s. Inr 1),
      auth_GetBearerToken = (\<lambda>h. Inr ''token''),
      auth_ValidateJWT = (\<lambda>token secret. Inr 7),
      mime_ParseMediaType = (\<lambda>v. Inr v),
      os_CreateTemp = (\<lambda>pattern. Inr ''/tmp/video-upload-1.mp4''),
      io_Copy = (\<lambda>name. None),
      exec_ffprobe = (\<lambda>name.
        Inr \<lparr>Streams = [\<lparr>Width = 1920, Height = 1080, DisplayAspectRatio = ''16:9''\<rparr>]\<rparr>),
      exec_ffmpeg = (\<lambda>input output. Exited0),
      os_Open = (\<lambda>name. None),
      rand_Read = Inr (\<lambda>i. 0),
      s3_PutObject = (\<lambda>bucket key contentType. None),
      db_UpdateVideo = (\<lambda>video. None),
      s3_PresignGetObject = (\<lambda>bucket key expires. Inr (''https://'' @ bucket @ ''/'' @ key @ ''?signed''))\<rparr>"

section \<open>Explicit display aspect ratio\<close>

lemma find_first_nonempty:
  assumes "\<forall>t\<in>set pre. DisplayAspectRatio t = []" and "DisplayAspectRatio s \<noteq> []"
  shows "find (\<lambda>s. DisplayAspectRatio s \<noteq> []) (pre @ s # post) = Some s"
  using assms by (induction pre) simp_all

text \<open>
  Claim C1. When some stream of the probe report carries a non-empty display aspect ratio,
  the inspection returns the string of the first such stream in report order, whatever the
  widths and heights are, and the key prefix chosen from it is \<open>landscape\<close> for
  \<open>16:9\<close>, \<open>portrait\<close> for \<open>9:16\<close> and \<open>other\<close> for every other string.
\<close>

theorem explicit_aspect_ratio_wins:
  assumes "probe filePath = Inr outData"
    and "Streams outData = pre @ s # post"
    and "\<forall>t\<in>set pre. DisplayAspectRatio t = []"
    and "DisplayAspectRatio s \<noteq> []"
  shows "getVideoAspectRatio probe filePath = Inr (DisplayAspectRatio s)
     \<and> map_sum id videoPrefix (getVideoAspectRatio probe filePath) =
         Inr (if DisplayAspectRatio s = ''16:9'' then ''landscape''
              else if DisplayAspectRatio s = ''9:16'' then ''portrait''
              else ''other'')"
proof -
  have "find (\<lambda>s. DisplayAspectRatio s \<noteq> []) (Streams outData) = Some s"
    using assms(2-4) by (simp add: find_first_nonempty)
  moreover obtain s0 rest where "Streams outData = s0 # rest"
    using assms(2) by (cases pre) simp_all
  ultimately have "getVideoAspectRatio probe filePath = Inr (DisplayAspectRatio s)"
    using assms(1) by (simp add: getVideoAspectRatio_def)
  then show ?thesis by (simp add: videoPrefix_def)
qed

text \<open>
  The report of the specification: one stream, 1000 by 1000, declared \<open>9:16\<close>, is
  classified as portrait.
\<close>

theorem explicit_aspect_ratio_wins_witness:
  "map_sum id videoPrefix
     (getVideoAspectRatio
        (\<lambda>p. Inr \<lparr>Streams = [\<lparr>Width = 1000, Height = 1000, DisplayAspectRatio = ''9:16''\<rparr>]\<rparr>)
        ''upload.mp4'') = Inr ''portrait''"
  using explicit_aspect_ratio_wins
    [of "\<lambda>p. Inr \<lparr>Streams = [\<lparr>Width = 1000, Height = 1000, DisplayAspectRatio = ''9:16''\<rparr>]\<rparr>"
        "''upload.mp4''"
        "\<lparr>Streams = [\<lparr>Width = 1000, Height = 1000, DisplayAspectRatio = ''9:16''\<rparr>]\<rparr>"
        "[]" "\<lparr>Width = 1000, Height = 1000, DisplayAspectRatio = ''9:16''\<rparr>" "[]"]
  by (simp add: videoPrefix_def)

section \<open>Rounding to binary64\<close>

text \<open>
  The facts about \<^const>\<open>round64\<close> that the numeric classification needs: the
  exponent found by \<^const>\<open>ilog2\<close> is the binary exponent, rounding to the nearest
  integer is off by at most a half, and so a rounded result is within half a unit in the
  last place of the exact one.
\<close>

lemma round_half_even_error: "\<bar>of_int (round_half_even x) - x\<bar> \<le> 1 / 2"
  unfolding round_half_even_def Let_def
  by (auto simp: abs_if) linarith+

lemma round_half_even_nonneg: "0 \<le> x \<Longrightarrow> 0 \<le> round_half_even x"
  unfolding round_half_even_def Let_def by auto

lemma round_half_even_nonpos: "x \<le> 0 \<Longrightarrow> round_half_even x \<le> 0"
  unfolding round_half_even_def Let_def
  by (auto simp: not_less)

lemma two_power_le_of_int: "(2::int) ^ k \<le> n \<Longrightarrow> (2::rat) ^ k \<le> of_int n"
  by (metis of_int_le_iff of_int_numeral of_int_power)

lemma of_int_less_two_power: "n < (2::int) ^ k \<Longrightarrow> (of_int n :: rat) < 2 ^ k"
  by (metis of_int_less_iff of_int_numeral of_int_power)

lemma ilog2_lower:
  assumes "0 < x"
  shows "2 powi (ilog2 x) \<le> x"
proof (cases "1 \<le> x")
  case True
  then have n: "0 < \<lfloor>x\<rfloor>" by linarith
  from bitlen_bounds[OF n] have "(2::rat) ^ nat (bitlen \<lfloor>x\<rfloor> - 1) \<le> of_int \<lfloor>x\<rfloor>"
    by (simp add: two_power_le_of_int)
  also have "\<dots> \<le> x" by simp
  finally have "(2::rat) ^ nat (bitlen \<lfloor>x\<rfloor> - 1) \<le> x" .
  moreover have "1 \<le> bitlen \<lfloor>x\<rfloor>" using n by (simp add: bitlen_alt_def)
  ultimately show ?thesis using True by (simp add: ilog2_def power_int_def)
next
  case False
  define c where "c = \<lceil>1 / x\<rceil>"
  have y: "1 < 1 / x" using False assms by simp
  then have c: "0 < c - 1" unfolding c_def by linarith
  from bitlen_bounds[OF c] have "c - 1 < 2 ^ nat (bitlen (c - 1))" by simp
  then have "c \<le> 2 ^ nat (bitlen (c - 1))" by simp
  then have "(of_int c :: rat) \<le> 2 ^ nat (bitlen (c - 1))"
    by (metis of_int_le_iff of_int_numeral of_int_power)
  moreover have "1 / x \<le> of_int c" unfolding c_def by simp
  ultimately have "1 / x \<le> 2 ^ nat (bitlen (c - 1))" by linarith
  then have "1 / 2 ^ nat (bitlen (c - 1)) \<le> x"
    using assms by (simp add: field_simps)
  moreover have "1 \<le> bitlen (c - 1)" using c by (simp add: bitlen_alt_def)
  ultimately show ?thesis using False
    by (simp add: ilog2_def power_int_def c_def inverse_eq_divide power_one_over)
qed

lemma ilog2_upper:
  assumes "0 < x"
  shows "x < 2 powi (ilog2 x + 1)"
proof (cases "1 \<le> x")
  case True
  then have n: "0 < \<lfloor>x\<rfloor>" by linarith
  from bitlen_bounds[OF n] have "\<lfloor>x\<rfloor> + 1 \<le> 2 ^ nat (bitlen \<lfloor>x\<rfloor>)" by simp
  then have "(of_int (\<lfloor>x\<rfloor> + 1) :: rat) \<le> 2 ^ nat (bitlen \<lfloor>x\<rfloor>)"
    by (metis of_int_le_iff of_int_numeral of_int_power)
  moreover have "x < of_int (\<lfloor>x\<rfloor> + 1)" by linarith
  ultimately have "x < 2 ^ nat (bitlen \<lfloor>x\<rfloor>)" by linarith
  moreover have "0 \<le> bitlen \<lfloor>x\<rfloor>" by (rule bitlen_nonneg)
  ultimately show ?thesis using True by (simp add: ilog2_def power_int_def)
next
  case False
  define c where "c = \<lceil>1 / x\<rceil>"
  define k where "k = bitlen (c - 1)"
  have y: "1 < 1 / x" using False assms by simp
  then have c: "0 < c - 1" unfolding c_def by linarith
  have k1: "1 \<le> k" using c by (simp add: k_def bitlen_alt_def)
  have "(2::rat) ^ nat (k - 1) \<le> of_int (c - 1)"
    unfolding k_def by (rule two_power_le_of_int) (rule conjunct1[OF bitlen_bounds[OF c]])
  moreover have "of_int (c - 1) < 1 / x" unfolding c_def by linarith
  ultimately have "2 ^ nat (k - 1) < 1 / x" by linarith
  then have "x < 1 / 2 ^ nat (k - 1)"
    using assms by (simp add: field_simps)
  moreover have "ilog2 x + 1 = - (k - 1)" using False by (simp add: ilog2_def k_def c_def)
  ultimately show ?thesis using k1 False
    by (auto simp add: power_int_def inverse_eq_divide power_one_over)
qed

lemma round64_error:
  assumes "\<bar>x\<bar> \<le> 2 ^ 1023"
  shows "\<exists>y. round64 x = Finite y
           \<and> \<bar>y - x\<bar> \<le> (if 1 / 2 ^ 1022 \<le> \<bar>x\<bar> then \<bar>x\<bar> / 2 ^ 53 else 1 / 2 ^ 1075)
           \<and> (0 \<le> x \<longrightarrow> 0 \<le> y) \<and> (x \<le> 0 \<longrightarrow> y \<le> 0)"
proof (cases "x = 0")
  case True
  then show ?thesis by (simp add: round64_def)
next
  case False
  define e where "e = max (ilog2 \<bar>x\<bar>) (- 1022)"
  define u where "u = (2::rat) powi (e - 52)"
  define m where "m = round_half_even (x / u)"
  define y where "y = of_int m * u"
  have u0: "0 < u" unfolding u_def by simp
  have "\<bar>of_int m - x / u\<bar> \<le> 1 / 2" unfolding m_def by (rule round_half_even_error)
  then have "\<bar>of_int m - x / u\<bar> * u \<le> 1 / 2 * u" using u0 by (simp only: mult_le_cancel_right_pos)
  moreover have "\<bar>of_int m - x / u\<bar> * u = \<bar>y - x\<bar>"
  proof -
    have "\<bar>of_int m - x / u\<bar> * u = \<bar>(of_int m - x / u) * u\<bar>" using u0 by (simp add: abs_mult)
    also have "(of_int m - x / u) * u = y - x" using u0 by (simp add: y_def field_simps)
    finally show ?thesis .
  qed
  ultimately have err: "\<bar>y - x\<bar> \<le> u / 2" by simp
  have ubound: "u / 2 \<le> (if 1 / 2 ^ 1022 \<le> \<bar>x\<bar> then \<bar>x\<bar> / 2 ^ 53 else 1 / 2 ^ 1075)"
  proof (cases "ilog2 \<bar>x\<bar> \<le> - 1022")
    case True
    then have "e = - 1022" by (simp add: e_def)
    then have "u / 2 = 1 / 2 ^ 1075" by (simp add: u_def power_int_def inverse_eq_divide power_one_over)
    then show ?thesis by simp
  next
    case False
    then have ee: "e = ilog2 \<bar>x\<bar>" by (simp add: e_def)
    have low: "2 powi e \<le> \<bar>x\<bar>" unfolding ee using \<open>x \<noteq> 0\<close> by (intro ilog2_lower) simp
    have "(2::rat) powi (- 1022) \<le> 2 powi e"
      using False ee by (intro power_int_increasing) simp_all
    then have "1 / 2 ^ 1022 \<le> \<bar>x\<bar>"
      using low by (simp add: power_int_def inverse_eq_divide power_one_over)
    moreover have "u = 2 powi e / 2 ^ 52"
      unfolding u_def by (simp add: power_int_diff)
    then have "u / 2 \<le> \<bar>x\<bar> / 2 ^ 53" using low by simp
    ultimately show ?thesis by simp
  qed
  have sgn1: "0 \<le> x \<Longrightarrow> 0 \<le> y"
    unfolding y_def m_def using u0 by (simp add: round_half_even_nonneg)
  have sgn2: "x \<le> 0 \<Longrightarrow> y \<le> 0"
    unfolding y_def m_def using u0 round_half_even_nonpos[of "x / u"]
    by (simp add: mult_le_0_iff divide_le_0_iff)
  have "u / 2 \<le> \<bar>x\<bar> / 2 ^ 53 + 1 / 2 ^ 1075"
    using ubound by (simp split: if_splits)
  then have "\<bar>y - x\<bar> \<le> \<bar>x\<bar> / 2 ^ 53 + 1 / 2 ^ 1075" using err by linarith
  moreover have "\<bar>y\<bar> \<le> \<bar>x\<bar> + \<bar>y - x\<bar>" by simp
  ultimately have "\<bar>y\<bar> \<le> \<bar>x\<bar> + (\<bar>x\<bar> / 2 ^ 53 + 1 / 2 ^ 1075)" by linarith
  also have "\<dots> \<le> 2 ^ 1023 + (2 ^ 1023 / 2 ^ 53 + 1 / 2 ^ 1075)"
    using assms by (simp add: divide_right_mono)
  also have "\<dots> < 2 ^ 1024" by simp
  finally have "\<not> 2 ^ 1024 \<le> \<bar>y\<bar>" by simp
  then have "round64 x = Finite y"
    using \<open>x \<noteq> 0\<close> by (simp add: round64_def Let_def y_def m_def u_def e_def)
  then show ?thesis using err ubound sgn1 sgn2 by auto
qed

lemma round64_normal:
  assumes "x = 0 \<or> 1 / 2 ^ 64 \<le> \<bar>x\<bar>" and "\<bar>x\<bar> \<le> 2 ^ 65"
  shows "\<exists>y. round64 x = Finite y \<and> \<bar>y - x\<bar> \<le> \<bar>x\<bar> / 2 ^ 53"
proof -
  have "\<bar>x\<bar> \<le> 2 ^ 1023" using assms(2) by simp
  from round64_error[OF this] obtain y where y: "round64 x = Finite y"
    "\<bar>y - x\<bar> \<le> (if 1 / 2 ^ 1022 \<le> \<bar>x\<bar> then \<bar>x\<bar> / 2 ^ 53 else 1 / 2 ^ 1075)"
    by blast
  show ?thesis
  proof (cases "x = 0")
    case True
    then show ?thesis by (simp add: round64_def)
  next
    case False
    then have "1 / 2 ^ 1022 \<le> \<bar>x\<bar>" using assms(1) by simp
    then show ?thesis using y by simp
  qed
qed

lemma sint64_bound: "\<bar>of_int (sint (n :: 64 word)) :: rat\<bar> \<le> 2 ^ 63"
proof -
  have "- (2 ^ 63) \<le> sint n" "sint n < 2 ^ 63"
    using sint_ge[of n] sint_lt[of n] by simp_all
  then have "\<bar>sint n\<bar> \<le> 2 ^ 63" by linarith
  then have "of_int \<bar>sint n\<bar> \<le> (of_int (2 ^ 63) :: rat)" by (simp only: of_int_le_iff)
  then show ?thesis by simp
qed

lemma of_int_abs_ge_1: "n \<noteq> 0 \<Longrightarrow> 1 \<le> \<bar>of_int n :: rat\<bar>"
proof -
  assume "n \<noteq> 0"
  then have "1 \<le> \<bar>n\<bar>" by linarith
  then have "(of_int 1 :: rat) \<le> of_int \<bar>n\<bar>" by (simp only: of_int_le_iff)
  then show ?thesis by simp
qed

lemma float64_of_int_error:
  "\<exists>a. float64_of_int n = Finite a
     \<and> \<bar>a - of_int (sint n)\<bar> \<le> \<bar>of_int (sint n)\<bar> / 2 ^ 53
     \<and> (sint n = 0 \<longrightarrow> a = 0)"
proof -
  define x :: rat where "x = of_int (sint n)"
  have "x = 0 \<or> 1 \<le> \<bar>x\<bar>"
    unfolding x_def using of_int_abs_ge_1[of "sint n"] by (cases "sint n = 0") simp_all
  then have 1: "x = 0 \<or> 1 / 2 ^ 64 \<le> \<bar>x\<bar>" by auto
  have 2: "\<bar>x\<bar> \<le> 2 ^ 65" using sint64_bound[of n] by (simp add: x_def)
  from round64_normal[OF 1 2] obtain y where y: "round64 x = Finite y" "\<bar>y - x\<bar> \<le> \<bar>x\<bar> / 2 ^ 53"
    by blast
  have "y = 0" if "sint n = 0"
    using y(2) that by (simp add: x_def)
  then show ?thesis
    using y unfolding float64_of_int_def x_def by blast
qed

lemma quotient_error:
  fixes a b w h :: rat
  assumes a: "\<bar>a - w\<bar> \<le> \<bar>w\<bar> / 2 ^ 53" and b: "\<bar>b - h\<bar> \<le> \<bar>h\<bar> / 2 ^ 53" and h: "h \<noteq> 0"
  shows "b \<noteq> 0" and "\<bar>a / b - w / h\<bar> \<le> 3 * \<bar>w / h\<bar> / 2 ^ 53"
proof -
  have hpos: "0 < \<bar>h\<bar>" using h by simp
  have hb: "2 * \<bar>h\<bar> \<le> 3 * \<bar>b\<bar>" using b by (simp add: abs_if split: if_splits)
  then show b0: "b \<noteq> 0" using hpos by auto
  have bpos: "0 < \<bar>b\<bar>" using b0 by simp
  have "a * h - w * b = (a - w) * h - w * (b - h)" by (simp add: algebra_simps)
  then have "\<bar>a * h - w * b\<bar> \<le> \<bar>a - w\<bar> * \<bar>h\<bar> + \<bar>w\<bar> * \<bar>b - h\<bar>"
    by (metis abs_mult abs_triangle_ineq4)
  also have "\<dots> \<le> (\<bar>w\<bar> / 2 ^ 53) * \<bar>h\<bar> + \<bar>w\<bar> * (\<bar>h\<bar> / 2 ^ 53)"
    using a b by (intro add_mono mult_right_mono mult_left_mono) simp_all
  also have "\<dots> = (2 * \<bar>h\<bar>) * (\<bar>w\<bar> / 2 ^ 53)" by simp
  also have "\<dots> \<le> (3 * \<bar>b\<bar>) * (\<bar>w\<bar> / 2 ^ 53)"
    using hb by (intro mult_right_mono) simp_all
  finally have num: "\<bar>a * h - w * b\<bar> \<le> 3 * \<bar>b\<bar> * \<bar>w\<bar> / 2 ^ 53" by simp
  have "a / b - w / h = (a * h - w * b) / (b * h)"
    using b0 h by (simp add: field_simps)
  then have "\<bar>a / b - w / h\<bar> = \<bar>a * h - w * b\<bar> / (\<bar>b\<bar> * \<bar>h\<bar>)"
    by (simp add: abs_mult)
  also have "\<dots> \<le> (3 * \<bar>b\<bar> * \<bar>w\<bar> / 2 ^ 53) / (\<bar>b\<bar> * \<bar>h\<bar>)"
    using num bpos hpos by (intro divide_right_mono) simp_all
  also have "\<dots> = 3 * \<bar>w / h\<bar> / 2 ^ 53"
    using bpos hpos by (simp add: field_simps abs_mult)
  finally show "\<bar>a / b - w / h\<bar> \<le> 3 * \<bar>w / h\<bar> / 2 ^ 53" .
qed


lemma ratio_float_error:
  fixes w h :: "64 word"
  assumes h: "sint h \<noteq> 0"
  shows "\<exists>r. f64_div (float64_of_int w) (float64_of_int h) = Finite r
    \<and> \<bar>r - of_int (sint w) / of_int (sint h)\<bar> \<le> 5 * \<bar>of_int (sint w) / of_int (sint h)\<bar> / 2 ^ 53
    \<and> \<bar>of_int (sint w) / of_int (sint h) :: rat\<bar> \<le> 2 ^ 63"
proof -
  define W :: rat where "W = of_int (sint w)"
  define H :: rat where "H = of_int (sint h)"
  define q where "q = W / H"
  obtain a where a: "float64_of_int w = Finite a" "\<bar>a - W\<bar> \<le> \<bar>W\<bar> / 2 ^ 53" "sint w = 0 \<longrightarrow> a = 0"
    unfolding W_def using float64_of_int_error[of w] by blast
  obtain b where b: "float64_of_int h = Finite b" "\<bar>b - H\<bar> \<le> \<bar>H\<bar> / 2 ^ 53"
    unfolding H_def using float64_of_int_error[of h] by blast
  have H1: "1 \<le> \<bar>H\<bar>" unfolding H_def using h by (rule of_int_abs_ge_1)
  then have H0: "H \<noteq> 0" by auto
  have H2: "\<bar>H\<bar> \<le> 2 ^ 63" unfolding H_def by (rule sint64_bound)
  have W2: "\<bar>W\<bar> \<le> 2 ^ 63" unfolding W_def by (rule sint64_bound)
  have b0: "b \<noteq> 0" and ab: "\<bar>a / b - q\<bar> \<le> 3 * \<bar>q\<bar> / 2 ^ 53"
    unfolding q_def using quotient_error[OF a(2) b(2) H0] by simp_all
  have "\<bar>W\<bar> / \<bar>H\<bar> \<le> 2 ^ 63 / 1"
    using W2 H1 by (intro frac_le) simp_all
  then have q2: "\<bar>q\<bar> \<le> 2 ^ 63" by (simp add: q_def)
  have small: "a / b = 0 \<or> 1 / 2 ^ 64 \<le> \<bar>a / b\<bar>"
  proof (cases "sint w = 0")
    case True
    then show ?thesis using a(3) by simp
  next
    case False
    then have W1: "1 \<le> \<bar>W\<bar>" unfolding W_def by (rule of_int_abs_ge_1)
    have "1 / 2 ^ 63 \<le> \<bar>W\<bar> / \<bar>H\<bar>"
      using W1 H2 H1 by (intro frac_le) simp_all
    then have "1 / 2 ^ 63 \<le> \<bar>q\<bar>" by (simp add: q_def)
    moreover have "\<bar>q\<bar> - \<bar>a / b - q\<bar> \<le> \<bar>a / b\<bar>" by linarith
    ultimately show ?thesis using ab by simp
  qed
  have large: "\<bar>a / b\<bar> \<le> 2 ^ 65"
  proof -
    have "\<bar>a / b\<bar> \<le> \<bar>q\<bar> + \<bar>a / b - q\<bar>" by linarith
    then show ?thesis using ab q2 by simp
  qed
  define ab where "ab = a / b"
  obtain r where r: "round64 ab = Finite r" "\<bar>r - ab\<bar> \<le> \<bar>ab\<bar> / 2 ^ 53"
    unfolding ab_def using round64_normal[OF small large] by blast
  have ab': "\<bar>ab - q\<bar> \<le> 3 * \<bar>q\<bar> / 2 ^ 53" using ab by (simp only: ab_def)
  have t1: "\<bar>ab\<bar> \<le> \<bar>q\<bar> + \<bar>ab - q\<bar>" by linarith
  have t2: "\<bar>r - q\<bar> \<le> \<bar>r - ab\<bar> + \<bar>ab - q\<bar>" by linarith
  define A where "A = \<bar>ab\<bar>"
  define Q where "Q = \<bar>q\<bar>"
  define E1 where "E1 = \<bar>ab - q\<bar>"
  define E2 where "E2 = \<bar>r - ab\<bar>"
  define E3 where "E3 = \<bar>r - q\<bar>"
  have "E1 \<le> 3 * Q / 2 ^ 53" "E2 \<le> A / 2 ^ 53" "A \<le> Q + E1" "E3 \<le> E2 + E1" "0 \<le> Q"
    using ab' r(2) t1 t2 by (simp_all only: A_def Q_def E1_def E2_def E3_def abs_ge_zero)
  then have "E3 \<le> 5 * Q / 2 ^ 53" by simp
  then have "\<bar>r - q\<bar> \<le> 5 * \<bar>q\<bar> / 2 ^ 53" by (simp only: E3_def Q_def)
  moreover have "f64_div (float64_of_int w) (float64_of_int h) = Finite r"
    using a(1) b(1) b0 r(1) by (simp add: ab_def)
  ultimately show ?thesis using q2 unfolding q_def W_def H_def by blast
qed

lemma almostEqual_ratio:
  fixes w h :: "64 word" and c :: rat
  assumes h: "sint h \<noteq> 0" and c: "1 / 2 \<le> c" "c \<le> 2"
  defines "q \<equiv> of_int (sint w) / of_int (sint h)"
  shows "\<bar>q - c\<bar> \<le> 1 / 1000 - 1 / 10 ^ 12 \<Longrightarrow>
           almostEqual (f64_div (float64_of_int w) (float64_of_int h)) (round64 c)"
    and "1 / 1000 + 1 / 10 ^ 12 \<le> \<bar>q - c\<bar> \<Longrightarrow>
           \<not> almostEqual (f64_div (float64_of_int w) (float64_of_int h)) (round64 c)"
proof -
  obtain r where r: "f64_div (float64_of_int w) (float64_of_int h) = Finite r"
    "\<bar>r - q\<bar> \<le> 5 * \<bar>q\<bar> / 2 ^ 53" "\<bar>q\<bar> \<le> 2 ^ 63"
    unfolding q_def using ratio_float_error[OF h, of w] by blast
  have "c = 0 \<or> 1 / 2 ^ 64 \<le> \<bar>c\<bar>" "\<bar>c\<bar> \<le> 2 ^ 65" using c by simp_all
  from round64_normal[OF this]
  obtain c' where c': "round64 c = Finite c'" "\<bar>c' - c\<bar> \<le> \<bar>c\<bar> / 2 ^ 53" by blast
  have "(1 / 1000 :: rat) = 0 \<or> 1 / 2 ^ 64 \<le> \<bar>1 / 1000 :: rat\<bar>" "\<bar>1 / 1000 :: rat\<bar> \<le> 2 ^ 65"
    by simp_all
  from round64_normal[OF this]
  obtain t :: rat where t: "float64EqualityThreshold = Finite t" "\<bar>t - 1 / 1000\<bar> \<le> \<bar>1 / 1000\<bar> / 2 ^ 53"
    unfolding float64EqualityThreshold_def by blast
  have cabs: "\<bar>c\<bar> \<le> 2" using c by simp
  have rbound: "\<bar>r\<bar> \<le> 2 ^ 64"
  proof -
    have "\<bar>r\<bar> \<le> \<bar>q\<bar> + \<bar>r - q\<bar>" by linarith
    then show ?thesis using r(2,3) by simp
  qed
  have "\<bar>r - c'\<bar> \<le> \<bar>r\<bar> + \<bar>c\<bar> + \<bar>c' - c\<bar>" by linarith
  then have "\<bar>r - c'\<bar> \<le> 2 ^ 1023" using rbound cabs c'(2) by simp
  from round64_error[OF this]
  obtain d where d: "round64 (r - c') = Finite d"
    "\<bar>d - (r - c')\<bar> \<le> (if 1 / 2 ^ 1022 \<le> \<bar>r - c'\<bar> then \<bar>r - c'\<bar> / 2 ^ 53 else 1 / 2 ^ 1075)"
    by blast
  have derr: "\<bar>d - (r - c')\<bar> \<le> \<bar>r - c'\<bar> / 2 ^ 53 + 1 / 2 ^ 60"
  proof (cases "1 / 2 ^ 1022 \<le> \<bar>r - c'\<bar>")
    case True
    then show ?thesis using d(2) by simp
  next
    case False
    then have "\<bar>d - (r - c')\<bar> \<le> 1 / 2 ^ 1075" using d(2) by simp
    moreover have "(1::rat) / 2 ^ 1075 \<le> 1 / 2 ^ 60" by simp
    moreover have "0 \<le> \<bar>r - c'\<bar> / 2 ^ 53" by simp
    ultimately show ?thesis by linarith
  qed
  have eq: "almostEqual (f64_div (float64_of_int w) (float64_of_int h)) (round64 c) \<longleftrightarrow> \<bar>d\<bar> \<le> t"
    by (simp add: almostEqual_def r(1) c'(1) d(1) t(1))
  have z1: "\<bar>r - c'\<bar> \<le> \<bar>q - c\<bar> + \<bar>r - q\<bar> + \<bar>c' - c\<bar>" by linarith
  have z2: "\<bar>q - c\<bar> \<le> \<bar>r - c'\<bar> + \<bar>r - q\<bar> + \<bar>c' - c\<bar>" by linarith
  have z3: "\<bar>d\<bar> \<le> \<bar>r - c'\<bar> + \<bar>d - (r - c')\<bar>" by linarith
  have z4: "\<bar>r - c'\<bar> \<le> \<bar>d\<bar> + \<bar>d - (r - c')\<bar>" by linarith
  have z5: "\<bar>q\<bar> \<le> \<bar>q - c\<bar> + \<bar>c\<bar>" by linarith
  define Z where "Z = \<bar>r - c'\<bar>"
  define D where "D = \<bar>d\<bar>"
  define X where "X = \<bar>q - c\<bar>"
  define Q where "Q = \<bar>q\<bar>"
  define C where "C = \<bar>c\<bar>"
  define R1 where "R1 = \<bar>r - q\<bar>"
  define C1 where "C1 = \<bar>c' - c\<bar>"
  define D1 where "D1 = \<bar>d - (r - c')\<bar>"
  have g: "Z \<le> X + R1 + C1" "X \<le> Z + R1 + C1" "D \<le> Z + D1" "Z \<le> D + D1" "Q \<le> X + C"
    "R1 \<le> 5 * Q / 2 ^ 53" "C1 \<le> C / 2 ^ 53" "D1 \<le> Z / 2 ^ 53 + 1 / 2 ^ 60" "C \<le> 2"
    "0 \<le> X" "0 \<le> Q" "0 \<le> Z" "0 \<le> C"
    using z1 z2 z3 z4 z5 r(2) c'(2) derr cabs
    by (simp_all only: Z_def D_def X_def Q_def C_def R1_def C1_def D1_def abs_ge_zero)
  have t1: "1 / 1000 - \<bar>t - 1 / 1000\<bar> \<le> t" "t \<le> 1 / 1000 + \<bar>t - 1 / 1000\<bar>"
    by linarith+
  define T1 where "T1 = \<bar>t - 1 / 1000\<bar>"
  have "T1 \<le> (1 / 1000) / 2 ^ 53" using t(2) by (simp add: T1_def)
  moreover have "1 / 1000 - T1 \<le> t" "t \<le> 1 / 1000 + T1"
    using t1 by (simp_all only: T1_def)
  ultimately have f4: "1 / 1000 - (1 / 1000) / 2 ^ 53 \<le> t" "t \<le> 1 / 1000 + (1 / 1000) / 2 ^ 53"
    by simp_all
  show "almostEqual (f64_div (float64_of_int w) (float64_of_int h)) (round64 c)"
    if "\<bar>q - c\<bar> \<le> 1 / 1000 - 1 / 10 ^ 12"
  proof -
    have "X \<le> 1 / 1000 - 1 / 10 ^ 12" using that by (simp add: X_def)
    then have "D \<le> t" using g f4 by simp
    then show ?thesis using eq by (simp add: D_def)
  qed
  show "\<not> almostEqual (f64_div (float64_of_int w) (float64_of_int h)) (round64 c)"
    if "1 / 1000 + 1 / 10 ^ 12 \<le> \<bar>q - c\<bar>"
  proof -
    have "1 / 1000 + 1 / 10 ^ 12 \<le> X" using that by (simp add: X_def)
    then have "t < D" using g f4 by simp
    then show ?thesis using eq by (simp add: D_def)
  qed
qed

lemma float64_of_int_zero: "sint n = 0 \<Longrightarrow> float64_of_int n = Finite 0"
  by (simp add: float64_of_int_def round64_def)

lemma round64_finite:
  assumes "1 / 2 \<le> c" and "c \<le> 2"
  shows "\<exists>c'. round64 c = Finite c'"
proof -
  have "c = 0 \<or> 1 / 2 ^ 64 \<le> \<bar>c\<bar>" "\<bar>c\<bar> \<le> 2 ^ 65" using assms by simp_all
  from round64_normal[OF this] show ?thesis by blast
qed

lemma float64EqualityThreshold_finite: "\<exists>t. float64EqualityThreshold = Finite t"
proof -
  have "(1 / 1000 :: rat) = 0 \<or> 1 / 2 ^ 64 \<le> \<bar>1 / 1000 :: rat\<bar>" "\<bar>1 / 1000 :: rat\<bar> \<le> 2 ^ 65"
    by simp_all
  from round64_normal[OF this] show ?thesis
    unfolding float64EqualityThreshold_def by blast
qed

text \<open>
  Dividing by the conversion of a zero height gives an infinity or a NaN, and neither is
  almost equal to a finite number.
\<close>

lemma f64_div_zero_height:
  assumes "sint h = 0"
  shows "f64_div (float64_of_int w) (float64_of_int h) \<in> {NaN, PosInf, NegInf}"
proof -
  obtain a where "float64_of_int w = Finite a"
    using float64_of_int_error[of w] by blast
  then show ?thesis using float64_of_int_zero[OF assms] by simp
qed

lemma almostEqual_not_finite:
  assumes "x \<in> {NaN, PosInf, NegInf}" and "1 / 2 \<le> c" and "c \<le> 2"
  shows "\<not> almostEqual x (round64 c)"
proof -
  obtain c' where c': "round64 c = Finite c'" using round64_finite[OF assms(2,3)] by blast
  obtain t where t: "float64EqualityThreshold = Finite t"
    using float64EqualityThreshold_finite by blast
  show ?thesis using assms(1) by (auto simp: almostEqual_def c' t)
qed

section \<open>Classification from the geometry\<close>

lemma getVideoAspectRatio_numeric:
  assumes "probe filePath = Inr outData"
    and "Streams outData = s0 # rest"
    and "\<forall>s\<in>set (Streams outData). DisplayAspectRatio s = []"
  shows "getVideoAspectRatio probe filePath =
     Inr (if almostEqual (f64_div (float64_of_int (Width s0)) (float64_of_int (Height s0))) ratio_16_9
          then ''16:9''
          else if almostEqual (f64_div (float64_of_int (Width s0)) (float64_of_int (Height s0))) ratio_9_16
          then ''9:16'' else ''other'')"
proof -
  have "find (\<lambda>s. DisplayAspectRatio s \<noteq> []) (Streams outData) = None"
    using assms(3) by (simp add: find_None_iff)
  then show ?thesis
    using assms(1,2) by (simp add: getVideoAspectRatio_def Let_def)
qed

text \<open>
  Claim C2. When the report has a stream and no stream carries a display aspect ratio,
  the classification is computed from the first stream: landscape when the \<^verbatim>\<open>float64\<close>
  quotient of its width and height is almost equal to \<open>16/9\<close>, else portrait when it is
  almost equal to \<open>9/16\<close>, else other, where almost equal is the test
  \<open>|a - b| \<le> 1e-3\<close> of \<^const>\<open>almostEqual\<close>. For a height other than zero the
  rounding of the float operations moves the tolerance by less than \<open>1e-12\<close>:
  an exact ratio within \<open>0.001 - 1e-12\<close> of \<open>16/9\<close> is landscape, one within that
  distance of \<open>9/16\<close> is portrait, and one at least \<open>0.001 + 1e-12\<close> away from both
  is other.
\<close>

theorem numeric_aspect_ratio:
  assumes "probe filePath = Inr outData"
    and "Streams outData = s0 # rest"
    and "\<forall>s\<in>set (Streams outData). DisplayAspectRatio s = []"
  shows "map_sum id videoPrefix (getVideoAspectRatio probe filePath) =
           Inr (if almostEqual (f64_div (float64_of_int (Width s0)) (float64_of_int (Height s0))) ratio_16_9
                then ''landscape''
                else if almostEqual (f64_div (float64_of_int (Width s0)) (float64_of_int (Height s0))) ratio_9_16
                then ''portrait'' else ''other'')
     \<and> (sint (Height s0) \<noteq> 0 \<longrightarrow>
          (\<bar>of_int (sint (Width s0)) / of_int (sint (Height s0)) - (16 / 9 :: rat)\<bar> \<le> 1 / 1000 - 1 / 10 ^ 12 \<longrightarrow>
             map_sum id videoPrefix (getVideoAspectRatio probe filePath) = Inr ''landscape'') \<and>
          (\<bar>of_int (sint (Width s0)) / of_int (sint (Height s0)) - (9 / 16 :: rat)\<bar> \<le> 1 / 1000 - 1 / 10 ^ 12 \<longrightarrow>
             map_sum id videoPrefix (getVideoAspectRatio probe filePath) = Inr ''portrait'') \<and>
          (1 / 1000 + 1 / 10 ^ 12 \<le> \<bar>of_int (sint (Width s0)) / of_int (sint (Height s0)) - (16 / 9 :: rat)\<bar> \<and>
           1 / 1000 + 1 / 10 ^ 12 \<le> \<bar>of_int (sint (Width s0)) / of_int (sint (Height s0)) - (9 / 16 :: rat)\<bar> \<longrightarrow>
             map_sum id videoPrefix (getVideoAspectRatio probe filePath) = Inr ''other''))"
proof -
  define ratio where "ratio = f64_div (float64_of_int (Width s0)) (float64_of_int (Height s0))"
  define q :: rat where "q = of_int (sint (Width s0)) / of_int (sint (Height s0))"
  have g: "getVideoAspectRatio probe filePath =
     Inr (if almostEqual ratio ratio_16_9 then ''16:9''
          else if almostEqual ratio ratio_9_16 then ''9:16'' else ''other'')"
    unfolding ratio_def by (rule getVideoAspectRatio_numeric[of probe filePath outData s0 rest, OF assms])
  have c: "map_sum id videoPrefix (getVideoAspectRatio probe filePath) =
     Inr (if almostEqual ratio ratio_16_9 then ''landscape''
          else if almostEqual ratio ratio_9_16 then ''portrait'' else ''other'')"
    by (simp add: g videoPrefix_def)
  have near169: "almostEqual ratio ratio_16_9"
    if "sint (Height s0) \<noteq> 0" "\<bar>q - 16 / 9\<bar> \<le> 1 / 1000 - 1 / 10 ^ 12"
    unfolding ratio_def ratio_16_9_def using that almostEqual_ratio(1)[of "Height s0" "16 / 9" "Width s0"]
    by (simp add: q_def)
  have far169: "\<not> almostEqual ratio ratio_16_9"
    if "sint (Height s0) \<noteq> 0" "1 / 1000 + 1 / 10 ^ 12 \<le> \<bar>q - 16 / 9\<bar>"
    unfolding ratio_def ratio_16_9_def using that almostEqual_ratio(2)[of "Height s0" "16 / 9" "Width s0"]
    by (simp add: q_def)
  have near916: "almostEqual ratio ratio_9_16"
    if "sint (Height s0) \<noteq> 0" "\<bar>q - 9 / 16\<bar> \<le> 1 / 1000 - 1 / 10 ^ 12"
    unfolding ratio_def ratio_9_16_def using that almostEqual_ratio(1)[of "Height s0" "9 / 16" "Width s0"]
    by (simp add: q_def)
  have far916: "\<not> almostEqual ratio ratio_9_16"
    if "sint (Height s0) \<noteq> 0" "1 / 1000 + 1 / 10 ^ 12 \<le> \<bar>q - 9 / 16\<bar>"
    unfolding ratio_def ratio_9_16_def using that almostEqual_ratio(2)[of "Height s0" "9 / 16" "Width s0"]
    by (simp add: q_def)
  have apart: "1 / 1000 + 1 / 10 ^ 12 \<le> \<bar>q - 16 / 9\<bar>" if "\<bar>q - 9 / 16\<bar> \<le> 1 / 1000 - 1 / 10 ^ 12"
    using that by (simp add: abs_if split: if_splits)
  show ?thesis
    unfolding c q_def[symmetric] ratio_def[symmetric]
    using near169 far169 near916 far916 apart by auto
qed

text \<open>
  The three reports of the specification: 1920 by 1080 is landscape, 1080 by 1920 is
  portrait and 1000 by 1000 is other.
\<close>

theorem numeric_aspect_ratio_witness:
  "map_sum id videoPrefix (getVideoAspectRatio
      (\<lambda>p. Inr \<lparr>Streams = [\<lparr>Width = 1920, Height = 1080, DisplayAspectRatio = []\<rparr>]\<rparr>) ''upload.mp4'')
     = Inr ''landscape''
   \<and> map_sum id videoPrefix (getVideoAspectRatio
      (\<lambda>p. Inr \<lparr>Streams = [\<lparr>Width = 1080, Height = 1920, DisplayAspectRatio = []\<rparr>]\<rparr>) ''upload.mp4'')
     = Inr ''portrait''
   \<and> map_sum id videoPrefix (getVideoAspectRatio
      (\<lambda>p. Inr \<lparr>Streams = [\<lparr>Width = 1000, Height = 1000, DisplayAspectRatio = []\<rparr>]\<rparr>) ''upload.mp4'')
     = Inr ''other''"
proof (intro conjI)
  show "map_sum id videoPrefix (getVideoAspectRatio
      (\<lambda>p. Inr \<lparr>Streams = [\<lparr>Width = 1920, Height = 1080, DisplayAspectRatio = []\<rparr>]\<rparr>) ''upload.mp4'')
     = Inr ''landscape''"
    using numeric_aspect_ratio
      [of "\<lambda>p. Inr \<lparr>Streams = [\<lparr>Width = 1920, Height = 1080, DisplayAspectRatio = []\<rparr>]\<rparr>"
          "''upload.mp4''" "\<lparr>Streams = [\<lparr>Width = 1920, Height = 1080, DisplayAspectRatio = []\<rparr>]\<rparr>"
          "\<lparr>Width = 1920, Height = 1080, DisplayAspectRatio = []\<rparr>" "[]", THEN conjunct2]
    by simp
  show "map_sum id videoPrefix (getVideoAspectRatio
      (\<lambda>p. Inr \<lparr>Streams = [\<lparr>Width = 1080, Height = 1920, DisplayAspectRatio = []\<rparr>]\<rparr>) ''upload.mp4'')
     = Inr ''portrait''"
    using numeric_aspect_ratio
      [of "\<lambda>p. Inr \<lparr>Streams = [\<lparr>Width = 1080, Height = 1920, DisplayAspectRatio = []\<rparr>]\<rparr>"
          "''upload.mp4''" "\<lparr>Streams = [\<lparr>Width = 1080, Height = 1920, DisplayAspectRatio = []\<rparr>]\<rparr>"
          "\<lparr>Width = 1080, Height = 1920, DisplayAspectRatio = []\<rparr>" "[]", THEN conjunct2]
    by simp
  show "map_sum id videoPrefix (getVideoAspectRatio
      (\<lambda>p. Inr \<lparr>Streams = [\<lparr>Width = 1000, Height = 1000, DisplayAspectRatio = []\<rparr>]\<rparr>) ''upload.mp4'')
     = Inr ''other''"
    using numeric_aspect_ratio
      [of "\<lambda>p. Inr \<lparr>Streams = [\<lparr>Width = 1000, Height = 1000, DisplayAspectRatio = []\<rparr>]\<rparr>"
          "''upload.mp4''" "\<lparr>Streams = [\<lparr>Width = 1000, Height = 1000, DisplayAspectRatio = []\<rparr>]\<rparr>"
          "\<lparr>Width = 1000, Height = 1000, DisplayAspectRatio = []\<rparr>" "[]", THEN conjunct2]
    by simp
qed

section \<open>A height of zero\<close>

text \<open>
  The handler does not test the height. A report whose only stream is 1920 wide and 0 high
  is inspected without an error: the quotient is \<open>+Inf\<close>, no comparison holds, and the
  result is \<open>other\<close>.
\<close>

theorem zero_height_counterexample:
  "getVideoAspectRatio
     (\<lambda>p. Inr \<lparr>Streams = [\<lparr>Width = 1920, Height = 0, DisplayAspectRatio = []\<rparr>]\<rparr>) ''upload.mp4''
   = Inr ''other''"
proof -
  have "f64_div (float64_of_int 1920) (float64_of_int 0) \<in> {NaN, PosInf, NegInf}"
    by (rule f64_div_zero_height) simp
  then have "\<not> almostEqual (f64_div (float64_of_int 1920) (float64_of_int 0)) ratio_16_9"
    "\<not> almostEqual (f64_div (float64_of_int 1920) (float64_of_int 0)) ratio_9_16"
    unfolding ratio_16_9_def ratio_9_16_def by (intro almostEqual_not_finite; simp)+
  then show ?thesis by (simp add: getVideoAspectRatio_def)
qed

text \<open>
  Claim C3, as the code has it. When the first stream has height zero and no stream
  carries a display aspect ratio, the inspection neither fails nor crashes: the
  \<^verbatim>\<open>float64\<close> division by zero gives an infinity or a NaN, which is almost equal to
  neither ratio, and the inspection returns \<open>other\<close>.
\<close>

theorem zero_height_is_other:
  assumes "probe filePath = Inr outData"
    and "Streams outData = s0 # rest"
    and "\<forall>s\<in>set (Streams outData). DisplayAspectRatio s = []"
    and "Height s0 = 0"
  shows "getVideoAspectRatio probe filePath = Inr ''other''
     \<and> map_sum id videoPrefix (getVideoAspectRatio probe filePath) = Inr ''other''"
proof -
  define ratio where "ratio = f64_div (float64_of_int (Width s0)) (float64_of_int (Height s0))"
  have "ratio \<in> {NaN, PosInf, NegInf}"
    unfolding ratio_def using assms(4) by (intro f64_div_zero_height) simp
  then have "\<not> almostEqual ratio ratio_16_9" "\<not> almostEqual ratio ratio_9_16"
    unfolding ratio_16_9_def ratio_9_16_def by (intro almostEqual_not_finite; simp)+
  then show ?thesis
    using getVideoAspectRatio_numeric[of probe filePath outData s0 rest, OF assms(1-3)] by (simp add: ratio_def videoPrefix_def)
qed

theorem zero_height_is_other_witness:
  "map_sum id videoPrefix (getVideoAspectRatio
     (\<lambda>p. Inr \<lparr>Streams = [\<lparr>Width = 0, Height = 0, DisplayAspectRatio = []\<rparr>,
                            \<lparr>Width = 1280, Height = 720, DisplayAspectRatio = []\<rparr>]\<rparr>) ''upload.mp4'')
   = Inr ''other''"
  using zero_height_is_other
      [of "\<lambda>p. Inr \<lparr>Streams = [\<lparr>Width = 0, Height = 0, DisplayAspectRatio = []\<rparr>,
                            \<lparr>Width = 1280, Height = 720, DisplayAspectRatio = []\<rparr>]\<rparr>"
          "''upload.mp4''"
          "\<lparr>Streams = [\<lparr>Width = 0, Height = 0, DisplayAspectRatio = []\<rparr>,
                            \<lparr>Width = 1280, Height = 720, DisplayAspectRatio = []\<rparr>]\<rparr>"
          "\<lparr>Width = 0, Height = 0, DisplayAspectRatio = []\<rparr>"
          "[\<lparr>Width = 1280, Height = 720, DisplayAspectRatio = []\<rparr>]"]
  by (simp add: videoPrefix_def)

section \<open>Splitting and encoding\<close>

lemma strings_Split_not_Nil: "strings_Split s c \<noteq> []"
  by (induction s) (auto split: list.splits)

lemma strings_Split_no_sep: "c \<notin> set s \<Longrightarrow> strings_Split s c = [s]"
  by (induction s) auto

lemma strings_Split_append:
  "c \<notin> set a \<Longrightarrow> strings_Split (a @ c # b) c = a # strings_Split b c"
  by (induction a) auto

lemma length_strings_Split:
  "length (strings_Split s c) = Suc (length (filter (\<lambda>x. x = c) s))"
  by (induction s) (auto split: list.splits simp: strings_Split_not_Nil)

lemma strings_Split_short_iff: "length (strings_Split s c) < 2 \<longleftrightarrow> c \<notin> set s"
  by (auto simp: length_strings_Split filter_empty_conv)

lemma encode_char_mem: "encode_char v \<in> set encodeURL"
  unfolding encode_char_def by (rule nth_mem) (simp add: encodeURL_def)

lemma set_RawURLEncoding_Encode: "set (RawURLEncoding_Encode src) \<subseteq> set encodeURL"
  by (induction src rule: RawURLEncoding_Encode.induct) (simp_all add: Let_def encode_char_mem)

lemma length_RawURLEncoding_Encode:
  "length (RawURLEncoding_Encode src) = RawURLEncoding_EncodedLen (length src)"
  by (induction src rule: RawURLEncoding_Encode.induct)
     (simp_all add: Let_def RawURLEncoding_EncodedLen_def)

lemma comma_not_encodeURL: "CHR '','' \<notin> set encodeURL"
  by (simp add: encodeURL_def)

lemma length_token_32: "length src = 32 \<Longrightarrow> length (RawURLEncoding_Encode src) = 43"
  by (simp add: length_RawURLEncoding_Encode RawURLEncoding_EncodedLen_def)

lemma videoPrefix_cases: "videoPrefix a \<in> {''landscape'', ''portrait'', ''other''}"
  by (simp add: videoPrefix_def)

lemma comma_not_in_key: "CHR '','' \<notin> set (s3VideoKey (videoPrefix a) raw mediaType)"
proof -
  have "CHR '','' \<notin> set (RawURLEncoding_Encode raw)"
    using set_RawURLEncoding_Encode[of raw] comma_not_encodeURL by blast
  then show ?thesis
    by (simp add: s3VideoKey_def videoPrefix_def mediaTypeToVideoExtension_def)
qed

section \<open>Signing a stored reference\<close>

text \<open>
  Claim C10. A record without a stored-object reference, or whose reference contains no
  comma (so that splitting gives fewer than two components), is returned by the signing
  conversion as it is, with no error, and no presign call is made.
\<close>

theorem unsigned_reference_unchanged:
  assumes "VideoURL video = None \<or> (\<exists>url. VideoURL video = Some url \<and> CHR '','' \<notin> set url)"
  shows "dbVideoToSignedVideo e video = ((video, None), [])"
  using assms by (auto simp: dbVideoToSignedVideo_def strings_Split_no_sep)

theorem unsigned_reference_unchanged_witness:
  "dbVideoToSignedVideo sample_env (sample_video\<lparr>VideoURL := Some ''https://example.com/boots.mp4''\<rparr>)
     = ((sample_video\<lparr>VideoURL := Some ''https://example.com/boots.mp4''\<rparr>, None), [])
   \<and> dbVideoToSignedVideo sample_env sample_video = ((sample_video, None), [])"
  using unsigned_reference_unchanged[of "sample_video\<lparr>VideoURL := Some ''https://example.com/boots.mp4''\<rparr>" sample_env]
    unsigned_reference_unchanged[of sample_video sample_env]
  by (simp add: sample_video_def)

text \<open>
  The reference is split at every comma and the first two components are taken, so a
  bucket name with a comma in it does not come back: the reference written for the bucket
  \<open>a,b\<close> is read as bucket \<open>a\<close> and key \<open>b\<close>.
\<close>

theorem reference_round_trip_counterexample:
  "strings_Split (''a,b'' @ '','' @ s3VideoKey ''other'' (replicate 32 0) ''video/mp4'') (CHR '','') ! 0 = ''a''
   \<and> strings_Split (''a,b'' @ '','' @ s3VideoKey ''other'' (replicate 32 0) ''video/mp4'') (CHR '','') ! 1 = ''b''"
  using strings_Split_append[of "CHR '',''" "''a''" "''b'' @ '','' @ s3VideoKey ''other'' (replicate 32 0) ''video/mp4''"]
    strings_Split_append[of "CHR '',''" "''b''" "s3VideoKey ''other'' (replicate 32 0) ''video/mp4''"]
  by simp

text \<open>
  Claim C6, as the code has it. For a bucket name without a comma and a key made by the key
  generator, the reference \<open>bucket,key\<close> splits into exactly the bucket and the key, and
  these are the two arguments of the presign call.
\<close>

theorem reference_round_trip:
  assumes "CHR '','' \<notin> set bucket"
  shows "strings_Split (bucket @ '','' @ s3VideoKey (videoPrefix a) raw mediaType) (CHR '','')
           = [bucket, s3VideoKey (videoPrefix a) raw mediaType]
     \<and> snd (dbVideoToSignedVideo e
              (video\<lparr>VideoURL := Some (bucket @ '','' @ s3VideoKey (videoPrefix a) raw mediaType)\<rparr>))
           = [PresignGetObject bucket (s3VideoKey (videoPrefix a) raw mediaType) (15 * Minute)]"
proof -
  have split: "strings_Split (bucket @ '','' @ s3VideoKey (videoPrefix a) raw mediaType) (CHR '','')
           = [bucket, s3VideoKey (videoPrefix a) raw mediaType]"
    using strings_Split_append[OF assms, of "s3VideoKey (videoPrefix a) raw mediaType"]
      strings_Split_no_sep[OF comma_not_in_key[of a raw mediaType]]
    by simp
  then show ?thesis
    by (auto simp add: dbVideoToSignedVideo_def generatePresignedURL_def Let_def split: sum.splits)
qed

theorem reference_round_trip_witness:
  "strings_Split (''tubely'' @ '','' @ s3VideoKey (videoPrefix ''16:9'') (replicate 32 0) ''video/mp4'') (CHR '','')
     = [''tubely'', s3VideoKey (videoPrefix ''16:9'') (replicate 32 0) ''video/mp4'']"
  using reference_round_trip[of "''tubely''" "''16:9''" "replicate 32 0" "''video/mp4''" sample_env sample_video]
  by simp

section \<open>Authorization and validation\<close>

text \<open>
  Claim C7. When the identifier parses, the token is found and valid and the record exists,
  but the record's owner is not the authenticated user, the handler answers 401 with
  \<open>User does not own video\<close> and has made no call at all: the request body is not
  parsed, no file is created, and the state is untouched.
\<close>

theorem not_owner_is_rejected_before_io:
  assumes "uuid_Parse e (PathValue_videoID r) = Inr videoID"
    and "auth_GetBearerToken e (Header r) = Inr token"
    and "auth_ValidateJWT e token (jwtSecret cfg) = Inr userID"
    and "videos w videoID = Some dbVideo"
    and "UserID dbVideo \<noteq> userID"
  shows "handlerUploadVideo cfg e r w = (respondWithError 401 ''User does not own video'', w, [])"
  using assms by (simp add: handlerUploadVideo_def)

theorem not_owner_is_rejected_before_io_witness:
  "handlerUploadVideo sample_cfg (sample_env\<lparr>auth_ValidateJWT := (\<lambda>token secret. Inr 8)\<rparr>)
     sample_request sample_world
   = (respondWithError 401 ''User does not own video'', sample_world, [])"
  using not_owner_is_rejected_before_io
    [of "sample_env\<lparr>auth_ValidateJWT := (\<lambda>token secret. Inr 8)\<rparr>" sample_request 1 "''token''"
        sample_cfg 8 sample_world sample_video]
  by (simp add: sample_env_def sample_world_def sample_video_def)

text \<open>
  A media type other than \<open>video/mp4\<close> ends the handler at the media-type check. The
  steps before the form is read either answer with their own error and make no call, or
  hand the record and the uploaded file to the rest of the handler.
\<close>

lemma form_rejects_media_type:
  assumes "mime_ParseMediaType e (ContentType file) \<noteq> Inr ''video/mp4''"
  shows "handlerUploadVideo_form cfg e dbVideo file w =
           (respondWithError 400 ''Error parsing media type'', w, [])
       \<or> handlerUploadVideo_form cfg e dbVideo file w =
           (respondWithError 400 ''Invalid media type'', w, [])"
  using assms by (auto simp: handlerUploadVideo_form_def split: sum.splits)

lemma handlerUploadVideo_cases:
  assumes "MultipartForm r = Inr form" and "form ''video'' = Some file"
  shows "(fst (handlerUploadVideo cfg e r w) \<in>
            {respondWithError 400 ''Invalid ID'', respondWithError 401 ''Couldn't find JWT'',
             respondWithError 401 ''Couldn't validate JWT'', respondWithError 404 ''Error getting video'',
             respondWithError 401 ''User does not own video''}
            \<and> snd (handlerUploadVideo cfg e r w) = (w, [])
            \<and> \<not> (\<exists>videoID token userID dbVideo.
                  uuid_Parse e (PathValue_videoID r) = Inr videoID
                \<and> auth_GetBearerToken e (Header r) = Inr token
                \<and> auth_ValidateJWT e token (jwtSecret cfg) = Inr userID
                \<and> videos w videoID = Some dbVideo
                \<and> UserID dbVideo = userID))
       \<or> (\<exists>videoID token dbVideo.
              uuid_Parse e (PathValue_videoID r) = Inr videoID
            \<and> auth_GetBearerToken e (Header r) = Inr token
            \<and> auth_ValidateJWT e token (jwtSecret cfg) = Inr (UserID dbVideo)
            \<and> videos w videoID = Some dbVideo
            \<and> handlerUploadVideo cfg e r w =
                (case handlerUploadVideo_form cfg e dbVideo file w of
                   (resp, w1, calls) \<Rightarrow> (resp, w1, ParseMultipartForm # calls @ [CloseFormFile])))"
  by (auto simp: handlerUploadVideo_def assms split: sum.splits option.splits)

text \<open>
  Claim C4. A request whose uploaded file declares a content type that does not parse to
  the media type \<open>video/mp4\<close> never reaches the object store: no \<open>PutObject\<close> call is
  made, the store is unchanged and the response is not a success. When the request passes
  authentication and the ownership check, the response is the 400 of the media-type
  check, the only calls are the parsing of the form and the closing of the form file, and
  the state is unchanged. The declared type is what \<^verbatim>\<open>mime.ParseMediaType\<close> returns
  for the \<open>Content-Type\<close> header of the file part.
\<close>

theorem unsupported_media_type_is_rejected:
  assumes "MultipartForm r = Inr form"
    and "form ''video'' = Some file"
    and "mime_ParseMediaType e (ContentType file) \<noteq> Inr ''video/mp4''"
    and "handlerUploadVideo cfg e r w = (resp, w', calls)"
  shows "(\<forall>bucket key contentType. PutObject bucket key contentType \<notin> set calls)
     \<and> objects w' = objects w
     \<and> status resp \<noteq> 200
     \<and> ((\<exists>videoID token userID dbVideo.
            uuid_Parse e (PathValue_videoID r) = Inr videoID
          \<and> auth_GetBearerToken e (Header r) = Inr token
          \<and> auth_ValidateJWT e token (jwtSecret cfg) = Inr userID
          \<and> videos w videoID = Some dbVideo
          \<and> UserID dbVideo = userID)
        \<longrightarrow> status resp = 400
          \<and> (payload resp = ErrorBody ''Error parsing media type''
             \<or> payload resp = ErrorBody ''Invalid media type'')
          \<and> calls = [ParseMultipartForm, CloseFormFile]
          \<and> w' = w)"
proof -
  from handlerUploadVideo_cases[OF assms(1,2), of cfg e w]
  consider (early) "fst (handlerUploadVideo cfg e r w) \<in>
            {respondWithError 400 ''Invalid ID'', respondWithError 401 ''Couldn't find JWT'',
             respondWithError 401 ''Couldn't validate JWT'', respondWithError 404 ''Error getting video'',
             respondWithError 401 ''User does not own video''}"
      "snd (handlerUploadVideo cfg e r w) = (w, [])"
      "\<not> (\<exists>videoID token userID dbVideo.
                  uuid_Parse e (PathValue_videoID r) = Inr videoID
                \<and> auth_GetBearerToken e (Header r) = Inr token
                \<and> auth_ValidateJWT e token (jwtSecret cfg) = Inr userID
                \<and> videos w videoID = Some dbVideo
                \<and> UserID dbVideo = userID)"
    | (form) dbVideo where "handlerUploadVideo cfg e r w =
                (case handlerUploadVideo_form cfg e dbVideo file w of
                   (resp, w1, calls) \<Rightarrow> (resp, w1, ParseMultipartForm # calls @ [CloseFormFile]))"
    by blast
  then show ?thesis
  proof cases
    case early
    then show ?thesis using assms(4) by (auto simp: respondWithError_def)
  next
    case form
    from form_rejects_media_type[OF assms(3), of cfg dbVideo w]
    show ?thesis using form assms(4) by (auto simp: respondWithError_def)
  qed
qed

theorem unsupported_media_type_is_rejected_witness:
  "status (fst (handlerUploadVideo sample_cfg sample_env
     (sample_request\<lparr>MultipartForm :=
        Inr (Map.empty(''video'' \<mapsto> \<lparr>ContentType = ''video/quicktime'', content = []\<rparr>))\<rparr>)
     sample_world)) = 400
   \<and> snd (snd (handlerUploadVideo sample_cfg sample_env
     (sample_request\<lparr>MultipartForm :=
        Inr (Map.empty(''video'' \<mapsto> \<lparr>ContentType = ''video/quicktime'', content = []\<rparr>))\<rparr>)
     sample_world)) = [ParseMultipartForm, CloseFormFile]"
proof -
  obtain resp w' calls where h: "handlerUploadVideo sample_cfg sample_env
     (sample_request\<lparr>MultipartForm :=
        Inr (Map.empty(''video'' \<mapsto> \<lparr>ContentType = ''video/quicktime'', content = []\<rparr>))\<rparr>)
     sample_world = (resp, w', calls)"
    by (metis prod_cases3)
  have m: "mime_ParseMediaType sample_env
      (ContentType \<lparr>ContentType = ''video/quicktime'', content = []\<rparr>) \<noteq> Inr ''video/mp4''"
    by (simp add: sample_env_def)
  have "status resp = 400 \<and> calls = [ParseMultipartForm, CloseFormFile]"
    using unsupported_media_type_is_rejected
      [of "sample_request\<lparr>MultipartForm :=
        Inr (Map.empty(''video'' \<mapsto> \<lparr>ContentType = ''video/quicktime'', content = []\<rparr>))\<rparr>"
        "Map.empty(''video'' \<mapsto> \<lparr>ContentType = ''video/quicktime'', content = []\<rparr>)"
        "\<lparr>ContentType = ''video/quicktime'', content = []\<rparr>"
        sample_env sample_cfg sample_world resp w' calls, OF _ _ m h]
    by (simp add: sample_env_def sample_world_def sample_video_def sample_request_def)
  then show ?thesis by (simp add: h)
qed

section \<open>The object key\<close>

text \<open>
  Only the last part of the handler calls \<open>PutObject\<close>, and what it puts is traced back
  through the parts before it: the prefix comes from the inspection of the staged file and
  the media type from the form.
\<close>

lemmas handler_defs = handlerUploadVideo_def handlerUploadVideo_form_def handlerUploadVideo_staged_def
  handlerUploadVideo_processed_def handlerUploadVideo_upload_def processVideoForFastStart_def

lemma dbVideoToSignedVideo_calls:
  assumes "dbVideoToSignedVideo e v = (x, cs)" and "c \<in> set cs"
  shows "\<exists>b k. c = PresignGetObject b k (15 * Minute)"
  using assms
  by (auto simp: dbVideoToSignedVideo_def generatePresignedURL_def Let_def
           split: option.splits sum.splits if_splits)

lemma upload_put:
  assumes "handlerUploadVideo_upload cfg e v mt pre w = (resp, w', calls)"
    and "PutObject b k t \<in> set calls"
  shows "\<exists>random. rand_Read e = Inr random \<and> b = s3Bucket cfg
           \<and> k = s3VideoKey pre (map random [0..<32]) mt \<and> t = mt"
  using assms
  by (auto simp: handlerUploadVideo_upload_def Let_def
           split: sum.splits option.splits prod.splits
           dest: dbVideoToSignedVideo_calls)

lemma processed_put:
  assumes "handlerUploadVideo_processed cfg e v mt pre path w = (resp, w', calls)"
    and "PutObject b k t \<in> set calls"
  shows "\<exists>random. rand_Read e = Inr random \<and> b = s3Bucket cfg
           \<and> k = s3VideoKey pre (map random [0..<32]) mt \<and> t = mt"
  using assms
  by (auto simp: handlerUploadVideo_processed_def
           split: option.splits prod.splits dest: upload_put)

lemma staged_put:
  assumes "handlerUploadVideo_staged cfg e v mt tempFile w = (resp, w', calls)"
    and "PutObject b k t \<in> set calls"
  shows "\<exists>aspectRatio random. getVideoAspectRatio (exec_ffprobe e) tempFile = Inr aspectRatio
           \<and> rand_Read e = Inr random \<and> b = s3Bucket cfg
           \<and> k = s3VideoKey (videoPrefix aspectRatio) (map random [0..<32]) mt \<and> t = mt"
  using assms
  by (auto simp: handlerUploadVideo_staged_def processVideoForFastStart_def Let_def
           split: option.splits prod.splits sum.splits exit.splits dest: processed_put)

lemma form_put:
  assumes "handlerUploadVideo_form cfg e v file w = (resp, w', calls)"
    and "PutObject b k t \<in> set calls"
  shows "\<exists>tempFile aspectRatio random.
             mime_ParseMediaType e (ContentType file) = Inr ''video/mp4''
           \<and> os_CreateTemp e ''video-upload-*.mp4'' = Inr tempFile
           \<and> getVideoAspectRatio (exec_ffprobe e) tempFile = Inr aspectRatio
           \<and> rand_Read e = Inr random \<and> b = s3Bucket cfg
           \<and> k = s3VideoKey (videoPrefix aspectRatio) (map random [0..<32]) ''video/mp4''
           \<and> t = ''video/mp4''"
  using assms
  by (auto simp: handlerUploadVideo_form_def Let_def mediaTypeToVideoExtension_def
           split: option.splits prod.splits sum.splits if_splits dest: staged_put)

lemma handler_put:
  assumes "handlerUploadVideo cfg e r w = (resp, w', calls)"
    and "PutObject b k t \<in> set calls"
  shows "\<exists>form file tempFile aspectRatio random.
             MultipartForm r = Inr form \<and> form ''video'' = Some file
           \<and> mime_ParseMediaType e (ContentType file) = Inr ''video/mp4''
           \<and> os_CreateTemp e ''video-upload-*.mp4'' = Inr tempFile
           \<and> getVideoAspectRatio (exec_ffprobe e) tempFile = Inr aspectRatio
           \<and> rand_Read e = Inr random \<and> b = s3Bucket cfg
           \<and> k = s3VideoKey (videoPrefix aspectRatio) (map random [0..<32]) ''video/mp4''
           \<and> t = ''video/mp4''"
  using assms
  by (auto simp: handlerUploadVideo_def
           split: option.splits prod.splits sum.splits if_splits dest: form_put)

text \<open>
  Claim C8. Whenever the handler puts an object, its key is the classification prefix
  (\<open>landscape\<close>, \<open>portrait\<close> or \<open>other\<close>, chosen from the inspected aspect ratio), a
  slash, the token, a dot and the extension of the declared media type. The token is the
  unpadded URL-safe base64 encoding of the 32 bytes read from the random source: 43
  characters, all of the alphabet \<^const>\<open>encodeURL\<close>. The media type is the one parsed
  from the form file, and its extension is \<open>mp4\<close>.
\<close>

theorem object_key_format:
  assumes "handlerUploadVideo cfg e r w = (resp, w', calls)"
    and "PutObject bucket key contentType \<in> set calls"
  shows "\<exists>form file tempFile aspectRatio random.
             MultipartForm r = Inr form \<and> form ''video'' = Some file
           \<and> mime_ParseMediaType e (ContentType file) = Inr contentType
           \<and> getVideoAspectRatio (exec_ffprobe e) tempFile = Inr aspectRatio
           \<and> rand_Read e = Inr random
           \<and> key = videoPrefix aspectRatio @ ''/'' @ RawURLEncoding_Encode (map random [0..<32])
                      @ ''.'' @ mediaTypeToVideoExtension contentType
           \<and> videoPrefix aspectRatio \<in> {''landscape'', ''portrait'', ''other''}
           \<and> length (map random [0..<32]) = 32
           \<and> length (RawURLEncoding_Encode (map random [0..<32])) = 43
           \<and> set (RawURLEncoding_Encode (map random [0..<32])) \<subseteq> set encodeURL
           \<and> mediaTypeToVideoExtension contentType = ''mp4''"
proof -
  from handler_put[OF assms] obtain form upload tempFile aspectRatio random where h:
    "MultipartForm r = Inr form" "form ''video'' = Some upload"
    "mime_ParseMediaType e (ContentType upload) = Inr ''video/mp4''"
    "getVideoAspectRatio (exec_ffprobe e) tempFile = Inr aspectRatio"
    "rand_Read e = Inr random"
    "key = s3VideoKey (videoPrefix aspectRatio) (map random [0..<32]) ''video/mp4''"
    "contentType = ''video/mp4''"
    by blast
  have "length (RawURLEncoding_Encode (map random [0..<32])) = 43"
    by (rule length_token_32) simp
  then show ?thesis
    using h videoPrefix_cases[of aspectRatio] set_RawURLEncoding_Encode[of "map random [0..<32]"]
    by (auto simp: s3VideoKey_def mediaTypeToVideoExtension_def simp del: upt_rec_numeral)
qed


text \<open>The sample request runs through every step.\<close>

lemmas sample_defs = sample_cfg_def sample_env_def sample_request_def sample_world_def sample_video_def

lemma Encode_zeros: "RawURLEncoding_Encode (map (\<lambda>i. 0) [0..<32]) = ''AAAAAAAAAAAAAAAAAAAAAAAAAAAAAAAAAAAAAAAAAAA''"
  by (simp add: upt_conv_Cons encode_char_def encodeURL_def)

lemma sample_run:
  "handlerUploadVideo sample_cfg sample_env sample_request sample_world =
     (respondWithJSON 200
        (sample_video\<lparr>VideoURL := Some ''https://tubely/landscape/AAAAAAAAAAAAAAAAAAAAAAAAAAAAAAAAAAAAAAAAAAA.mp4?signed''\<rparr>),
      sample_world\<lparr>objects := {(''tubely'', ''landscape/AAAAAAAAAAAAAAAAAAAAAAAAAAAAAAAAAAAAAAAAAAA.mp4'')},
        videos := (videos sample_world)
          (1 \<mapsto> sample_video\<lparr>VideoURL := Some ''tubely,landscape/AAAAAAAAAAAAAAAAAAAAAAAAAAAAAAAAAAAAAAAAAAA.mp4''\<rparr>)\<rparr>,
      [ParseMultipartForm, CreateTemp ''video-upload-*.mp4'', Copy ''/tmp/video-upload-1.mp4'',
       Ffprobe ''/tmp/video-upload-1.mp4'',
       Ffmpeg ''/tmp/video-upload-1.mp4'' ''/tmp/video-upload-1.mp4.processing'',
       Open ''/tmp/video-upload-1.mp4.processing'',
       PutObject ''tubely'' ''landscape/AAAAAAAAAAAAAAAAAAAAAAAAAAAAAAAAAAAAAAAAAAA.mp4'' ''video/mp4'',
       UpdateVideo (sample_video\<lparr>VideoURL := Some ''tubely,landscape/AAAAAAAAAAAAAAAAAAAAAAAAAAAAAAAAAAAAAAAAAAA.mp4''\<rparr>),
       PresignGetObject ''tubely'' ''landscape/AAAAAAAAAAAAAAAAAAAAAAAAAAAAAAAAAAAAAAAAAAA.mp4'' 900000000000,
       Close ''/tmp/video-upload-1.mp4.processing'', Remove ''/tmp/video-upload-1.mp4.processing'',
       Close ''/tmp/video-upload-1.mp4'', Remove ''/tmp/video-upload-1.mp4'', CloseFormFile])"
  by (simp add: handler_defs sample_defs getVideoAspectRatio_def videoPrefix_def s3VideoKey_def
      mediaTypeToVideoExtension_def dbVideoToSignedVideo_def generatePresignedURL_def Minute_def
      os_Remove_def Encode_zeros respondWithJSON_def Let_def del: upt_rec_numeral)


theorem object_key_format_witness:
  "PutObject ''tubely'' ''landscape/AAAAAAAAAAAAAAAAAAAAAAAAAAAAAAAAAAAAAAAAAAA.mp4'' ''video/mp4''
     \<in> set (snd (snd (handlerUploadVideo sample_cfg sample_env sample_request sample_world)))
   \<and> (\<exists>aspectRatio random.
          rand_Read sample_env = Inr random
        \<and> ''landscape/AAAAAAAAAAAAAAAAAAAAAAAAAAAAAAAAAAAAAAAAAAA.mp4'' =
            videoPrefix aspectRatio @ ''/'' @ RawURLEncoding_Encode (map random [0..<32])
              @ ''.'' @ mediaTypeToVideoExtension ''video/mp4''
        \<and> length (RawURLEncoding_Encode (map random [0..<32])) = 43)"
proof -
  have "PutObject ''tubely'' ''landscape/AAAAAAAAAAAAAAAAAAAAAAAAAAAAAAAAAAAAAAAAAAA.mp4'' ''video/mp4''
     \<in> set (snd (snd (handlerUploadVideo sample_cfg sample_env sample_request sample_world)))"
    by (simp add: sample_run)
  moreover from object_key_format[OF sample_run, of "''tubely''" "''landscape/AAAAAAAAAAAAAAAAAAAAAAAAAAAAAAAAAAAAAAAAAAA.mp4''" "''video/mp4''"]
  have "\<exists>aspectRatio random.
          rand_Read sample_env = Inr random
        \<and> ''landscape/AAAAAAAAAAAAAAAAAAAAAAAAAAAAAAAAAAAAAAAAAAA.mp4'' =
            videoPrefix aspectRatio @ ''/'' @ RawURLEncoding_Encode (map random [0..<32])
              @ ''.'' @ mediaTypeToVideoExtension ''video/mp4''
        \<and> length (RawURLEncoding_Encode (map random [0..<32])) = 43"
    by (simp del: upt_rec_numeral) blast
  ultimately show ?thesis by blast
qed

section \<open>The persisted reference\<close>

lemma dbVideoToSignedVideo_ok:
  assumes "dbVideoToSignedVideo e (v\<lparr>VideoURL := Some (b @ CHR '','' # k)\<rparr>) = ((sv, None), cs)"
  shows "\<exists>url bucket key. sv = v\<lparr>VideoURL := Some url\<rparr>
           \<and> s3_PresignGetObject e bucket key (15 * Minute) = Inr url
           \<and> cs = [PresignGetObject bucket key (15 * Minute)]"
proof -
  have "\<not> length (strings_Split (b @ CHR '','' # k) (CHR '','')) < 2"
    by (simp add: strings_Split_short_iff)
  then show ?thesis
    using assms
    by (auto simp: dbVideoToSignedVideo_def generatePresignedURL_def Let_def split: sum.splits)
qed

lemma upload_ok:
  assumes "handlerUploadVideo_upload cfg e v mt pre w = (resp, w', calls)"
    and "status resp = 200"
  shows "\<exists>key url b k.
            resp = respondWithJSON 200 (v\<lparr>VideoURL := Some url\<rparr>)
          \<and> w' = w\<lparr>objects := insert (s3Bucket cfg, key) (objects w),
                   videos := (videos w)(ID v \<mapsto> v\<lparr>VideoURL := Some (s3Bucket cfg @ '','' @ key)\<rparr>)\<rparr>
          \<and> calls = [PutObject (s3Bucket cfg) key mt,
                      UpdateVideo (v\<lparr>VideoURL := Some (s3Bucket cfg @ '','' @ key)\<rparr>),
                      PresignGetObject b k (15 * Minute)]
          \<and> s3_PresignGetObject e b k (15 * Minute) = Inr url"
  using assms
  by (auto simp: handlerUploadVideo_upload_def Let_def respondWithError_def respondWithJSON_def
           split: sum.splits option.splits prod.splits
           dest!: dbVideoToSignedVideo_ok)


lemma processed_ok:
  assumes "handlerUploadVideo_processed cfg e v mt pre path w = (resp, w', calls)"
    and "status resp = 200"
  shows "\<exists>key url b k.
            resp = respondWithJSON 200 (v\<lparr>VideoURL := Some url\<rparr>)
          \<and> w' = w\<lparr>objects := insert (s3Bucket cfg, key) (objects w),
                   videos := (videos w)(ID v \<mapsto> v\<lparr>VideoURL := Some (s3Bucket cfg @ '','' @ key)\<rparr>)\<rparr>
          \<and> calls = [Open path, PutObject (s3Bucket cfg) key mt,
                      UpdateVideo (v\<lparr>VideoURL := Some (s3Bucket cfg @ '','' @ key)\<rparr>),
                      PresignGetObject b k (15 * Minute), Close path]
          \<and> s3_PresignGetObject e b k (15 * Minute) = Inr url"
proof (cases "os_Open e path")
  case None
  obtain resp1 w1 calls1 where u: "handlerUploadVideo_upload cfg e v mt pre w = (resp1, w1, calls1)"
    by (metis prod_cases3)
  with None assms have "resp = resp1" "w' = w1" "calls = Open path # calls1 @ [Close path]"
    by (simp_all add: handlerUploadVideo_processed_def)
  with upload_ok[OF u] assms(2) show ?thesis by auto
next
  case (Some err)
  then show ?thesis using assms by (auto simp: handlerUploadVideo_processed_def respondWithError_def)
qed


lemma staged_ok:
  assumes "handlerUploadVideo_staged cfg e v mt tempFile w = (resp, w', calls)"
    and "status resp = 200"
  shows "\<exists>key url b k.
            resp = respondWithJSON 200 (v\<lparr>VideoURL := Some url\<rparr>)
          \<and> videos w' = (videos w)(ID v \<mapsto> v\<lparr>VideoURL := Some (s3Bucket cfg @ '','' @ key)\<rparr>)
          \<and> objects w' = insert (s3Bucket cfg, key) (objects w)
          \<and> files w' = files w - {tempFile @ ''.processing''}
          \<and> calls = [Copy tempFile, Ffprobe tempFile, Ffmpeg tempFile (tempFile @ ''.processing''),
                      Open (tempFile @ ''.processing''), PutObject (s3Bucket cfg) key mt,
                      UpdateVideo (v\<lparr>VideoURL := Some (s3Bucket cfg @ '','' @ key)\<rparr>),
                      PresignGetObject b k (15 * Minute), Close (tempFile @ ''.processing''),
                      Remove (tempFile @ ''.processing'')]
          \<and> s3_PresignGetObject e b k (15 * Minute) = Inr url"
  using assms
  by (auto simp: handlerUploadVideo_staged_def processVideoForFastStart_def Let_def os_Remove_def
                 respondWithError_def
           split: sum.splits option.splits prod.splits exit.splits
           dest!: processed_ok)

lemma form_ok:
  assumes "handlerUploadVideo_form cfg e v upload w = (resp, w', calls)"
    and "status resp = 200"
  shows "\<exists>tempFile key url b k.
            resp = respondWithJSON 200 (v\<lparr>VideoURL := Some url\<rparr>)
          \<and> videos w' = (videos w)(ID v \<mapsto> v\<lparr>VideoURL := Some (s3Bucket cfg @ '','' @ key)\<rparr>)
          \<and> objects w' = insert (s3Bucket cfg, key) (objects w)
          \<and> files w' = files w - {tempFile @ ''.processing''} - {tempFile}
          \<and> calls = [CreateTemp ''video-upload-*.mp4'',
                      Copy tempFile, Ffprobe tempFile, Ffmpeg tempFile (tempFile @ ''.processing''),
                      Open (tempFile @ ''.processing''), PutObject (s3Bucket cfg) key ''video/mp4'',
                      UpdateVideo (v\<lparr>VideoURL := Some (s3Bucket cfg @ '','' @ key)\<rparr>),
                      PresignGetObject b k (15 * Minute), Close (tempFile @ ''.processing''),
                      Remove (tempFile @ ''.processing''), Close tempFile, Remove tempFile]
          \<and> s3_PresignGetObject e b k (15 * Minute) = Inr url"
  using assms
  by (auto simp: handlerUploadVideo_form_def Let_def os_Remove_def mediaTypeToVideoExtension_def
                 respondWithError_def
           split: sum.splits option.splits prod.splits if_splits
           dest!: staged_ok)

lemma handler_ok:
  assumes "handlerUploadVideo cfg e r w = (resp, w', calls)"
    and "status resp = 200"
  shows "\<exists>videoID v tempFile key url b k.
            uuid_Parse e (PathValue_videoID r) = Inr videoID
          \<and> videos w videoID = Some v
          \<and> resp = respondWithJSON 200 (v\<lparr>VideoURL := Some url\<rparr>)
          \<and> videos w' = (videos w)(ID v \<mapsto> v\<lparr>VideoURL := Some (s3Bucket cfg @ '','' @ key)\<rparr>)
          \<and> objects w' = insert (s3Bucket cfg, key) (objects w)
          \<and> files w' = files w - {tempFile @ ''.processing''} - {tempFile}
          \<and> calls = [ParseMultipartForm, CreateTemp ''video-upload-*.mp4'',
                      Copy tempFile, Ffprobe tempFile, Ffmpeg tempFile (tempFile @ ''.processing''),
                      Open (tempFile @ ''.processing''), PutObject (s3Bucket cfg) key ''video/mp4'',
                      UpdateVideo (v\<lparr>VideoURL := Some (s3Bucket cfg @ '','' @ key)\<rparr>),
                      PresignGetObject b k (15 * Minute), Close (tempFile @ ''.processing''),
                      Remove (tempFile @ ''.processing''), Close tempFile, Remove tempFile,
                      CloseFormFile]
          \<and> s3_PresignGetObject e b k (15 * Minute) = Inr url"
  using assms
  by (auto simp: handlerUploadVideo_def respondWithError_def
           split: sum.splits option.splits prod.splits if_splits
           dest!: form_ok)


text \<open>
  Claim C5. On every successful upload the record written to the record store (the only
  \<open>UpdateVideo\<close> call, and the record found in the store afterwards) carries the composite
  reference \<open>bucket,key\<close> of the object that was put; the signed URL returned by the
  presign call replaces the reference only in the record of the response.
\<close>

theorem stored_reference_is_composite:
  assumes "handlerUploadVideo cfg e r w = (resp, w', calls)"
    and "status resp = 200"
  shows "\<exists>videoID dbVideo key signedURL b k.
            uuid_Parse e (PathValue_videoID r) = Inr videoID
          \<and> videos w videoID = Some dbVideo
          \<and> PutObject (s3Bucket cfg) key ''video/mp4'' \<in> set calls
          \<and> (\<forall>v. UpdateVideo v \<in> set calls \<longleftrightarrow>
                 v = dbVideo\<lparr>VideoURL := Some (s3Bucket cfg @ '','' @ key)\<rparr>)
          \<and> videos w' = (videos w)
                (ID dbVideo \<mapsto> dbVideo\<lparr>VideoURL := Some (s3Bucket cfg @ '','' @ key)\<rparr>)
          \<and> s3_PresignGetObject e b k (15 * Minute) = Inr signedURL
          \<and> PresignGetObject b k (15 * Minute) \<in> set calls
          \<and> payload resp = VideoBody (dbVideo\<lparr>VideoURL := Some signedURL\<rparr>)"
proof -
  from handler_ok[OF assms] obtain videoID v tempFile key url b k where h:
    "uuid_Parse e (PathValue_videoID r) = Inr videoID"
    "videos w videoID = Some v"
    "resp = respondWithJSON 200 (v\<lparr>VideoURL := Some url\<rparr>)"
    "videos w' = (videos w)(ID v \<mapsto> v\<lparr>VideoURL := Some (s3Bucket cfg @ '','' @ key)\<rparr>)"
    "calls = [ParseMultipartForm, CreateTemp ''video-upload-*.mp4'',
                      Copy tempFile, Ffprobe tempFile, Ffmpeg tempFile (tempFile @ ''.processing''),
                      Open (tempFile @ ''.processing''), PutObject (s3Bucket cfg) key ''video/mp4'',
                      UpdateVideo (v\<lparr>VideoURL := Some (s3Bucket cfg @ '','' @ key)\<rparr>),
                      PresignGetObject b k (15 * Minute), Close (tempFile @ ''.processing''),
                      Remove (tempFile @ ''.processing''), Close tempFile, Remove tempFile,
                      CloseFormFile]"
    "s3_PresignGetObject e b k (15 * Minute) = Inr url"
    by blast
  have "\<forall>x. UpdateVideo x \<in> set calls \<longleftrightarrow>
                 x = v\<lparr>VideoURL := Some (s3Bucket cfg @ '','' @ key)\<rparr>"
    unfolding h(5) by auto
  moreover have "PutObject (s3Bucket cfg) key ''video/mp4'' \<in> set calls"
    "PresignGetObject b k (15 * Minute) \<in> set calls"
    unfolding h(5) by simp_all
  moreover have "payload resp = VideoBody (v\<lparr>VideoURL := Some url\<rparr>)"
    by (simp add: h(3) respondWithJSON_def)
  ultimately show ?thesis using h(1,2,4,6) by blast
qed

theorem stored_reference_is_composite_witness:
  "status (fst (handlerUploadVideo sample_cfg sample_env sample_request sample_world)) = 200
   \<and> (\<exists>key signedURL.
         videos (fst (snd (handlerUploadVideo sample_cfg sample_env sample_request sample_world))) 1
           = Some (sample_video\<lparr>VideoURL := Some (''tubely'' @ '','' @ key)\<rparr>)
       \<and> payload (fst (handlerUploadVideo sample_cfg sample_env sample_request sample_world))
           = VideoBody (sample_video\<lparr>VideoURL := Some signedURL\<rparr>))"
proof -
  have s: "status (fst (handlerUploadVideo sample_cfg sample_env sample_request sample_world)) = 200"
    by (simp add: sample_run respondWithJSON_def)
  obtain resp w' calls where
    h: "handlerUploadVideo sample_cfg sample_env sample_request sample_world = (resp, w', calls)"
    by (metis prod_cases3)
  from stored_reference_is_composite[OF h] s h
  obtain videoID dbVideo key signedURL where
    "uuid_Parse sample_env (PathValue_videoID sample_request) = Inr videoID"
    "videos sample_world videoID = Some dbVideo"
    "videos w' = (videos sample_world)
                (ID dbVideo \<mapsto> dbVideo\<lparr>VideoURL := Some (s3Bucket sample_cfg @ '','' @ key)\<rparr>)"
    "payload resp = VideoBody (dbVideo\<lparr>VideoURL := Some signedURL\<rparr>)"
    by auto
  then have "videos w' 1 = Some (sample_video\<lparr>VideoURL := Some (''tubely'' @ '','' @ key)\<rparr>)
       \<and> payload resp = VideoBody (sample_video\<lparr>VideoURL := Some signedURL\<rparr>)"
    by (auto simp: sample_env_def sample_world_def sample_cfg_def sample_video_def split: if_splits)
  then show ?thesis using s h by auto
qed

section \<open>Cleaning up the local files\<close>

text \<open>
  \<^verbatim>\<open>os.CreateTemp\<close> returns the name of a file that did not exist. The staged file is
  removed on every path. The output of the transcoder is removed on every path on which
  the transcoder has not failed and left its output behind: the removal is deferred only
  after \<^verbatim>\<open>processVideoForFastStart\<close> has returned without an error.
\<close>

lemma upload_files:
  "handlerUploadVideo_upload cfg e v mt pre w = (resp, w', calls) \<Longrightarrow> files w' = files w"
  by (auto simp: handlerUploadVideo_upload_def Let_def split: sum.splits option.splits prod.splits)

lemma processed_files:
  "handlerUploadVideo_processed cfg e v mt pre path w = (resp, w', calls) \<Longrightarrow> files w' = files w"
  by (auto simp: handlerUploadVideo_processed_def split: option.splits prod.splits dest: upload_files)

lemma staged_files:
  assumes "handlerUploadVideo_staged cfg e v mt tempFile w = (resp, w', calls)"
    and "\<forall>err. exec_ffmpeg e tempFile (tempFile @ ''.processing'') \<noteq> ExitedNonZero err True"
  shows "files w' \<subseteq> files w"
    and "exec_ffmpeg e tempFile (tempFile @ ''.processing'') = Exited0 \<Longrightarrow>
           Ffmpeg tempFile (tempFile @ ''.processing'') \<in> set calls \<Longrightarrow>
           tempFile @ ''.processing'' \<notin> files w'"
  using assms
  by (auto simp: handlerUploadVideo_staged_def processVideoForFastStart_def Let_def os_Remove_def
           split: sum.splits option.splits prod.splits exit.splits if_splits
           dest!: processed_files)

lemma staged_file_is_removed:
  assumes "handlerUploadVideo cfg e r w = (resp, w', calls)"
    and "os_CreateTemp e ''video-upload-*.mp4'' = Inr tempFile"
    and "tempFile \<notin> files w"
  shows "tempFile \<notin> files w'"
  using assms
  by (auto simp: handlerUploadVideo_def handlerUploadVideo_form_def Let_def os_Remove_def
                 mediaTypeToVideoExtension_def
           split: sum.splits option.splits prod.splits if_splits)

lemma artifact_is_removed_unless_transcode_fails:
  assumes "handlerUploadVideo cfg e r w = (resp, w', calls)"
    and "os_CreateTemp e ''video-upload-*.mp4'' = Inr tempFile"
    and "tempFile @ ''.processing'' \<notin> files w"
    and "\<forall>err. exec_ffmpeg e tempFile (tempFile @ ''.processing'') \<noteq> ExitedNonZero err True"
  shows "tempFile @ ''.processing'' \<notin> files w'"
  using assms
  by (auto simp: handlerUploadVideo_def handlerUploadVideo_form_def Let_def os_Remove_def
                 mediaTypeToVideoExtension_def
           split: sum.splits option.splits prod.splits if_splits
           dest!: staged_files(1))

text \<open>
  Claim C9 at a failing transcode. When \<^verbatim>\<open>ffmpeg\<close> exits with an error after it has
  created its output file, the handler answers 500 and returns before the removal of that
  file is deferred: the staged file is removed, the \<open>.processing\<close> file stays on disk.
\<close>

theorem failed_transcode_leaves_artifact:
  "handlerUploadVideo sample_cfg
     (sample_env\<lparr>exec_ffmpeg := (\<lambda>input output. ExitedNonZero (Error ''exit status 1'') True)\<rparr>)
     sample_request sample_world
   = (respondWithError 500 ''Error processing video for fast start'',
      sample_world\<lparr>files := {''/tmp/video-upload-1.mp4.processing''}\<rparr>,
      [ParseMultipartForm, CreateTemp ''video-upload-*.mp4'', Copy ''/tmp/video-upload-1.mp4'',
       Ffprobe ''/tmp/video-upload-1.mp4'',
       Ffmpeg ''/tmp/video-upload-1.mp4'' ''/tmp/video-upload-1.mp4.processing'',
       Close ''/tmp/video-upload-1.mp4'', Remove ''/tmp/video-upload-1.mp4'', CloseFormFile])"
  by (auto simp: handler_defs sample_defs getVideoAspectRatio_def videoPrefix_def
      mediaTypeToVideoExtension_def os_Remove_def Let_def)

end
